theory Spec2Isabelle
  imports Main "HOL-Library.Word" "HOL-Library.AList" "HOL-Library.Char_ord"
    "HOL-Library.List_Lexorder"
begin

section \<open>Values and errors\<close>

text \<open>
  Unstructured objects are Go values of type \<open>map[string]any\<close>: JSON trees. An object is
  an association list from field names to values, read with \<open>map_of\<close>; the helpers below
  delete a key and store one the way the Go map operations do (one binding per key).
  Numbers are integers: no function modelled here computes with them.
\<close>

datatype json =
    JNull
  | JBool bool
  | JNum int
  | JStr string
  | JArr "json list"
  | JObj "(string \<times> json) list"

type_synonym object = "(string \<times> json) list"

text \<open>
  A nil map reads like an empty one (lookups miss, \<open>delete\<close> does nothing), and the one
  setter that may meet a nil \<open>Object\<close> allocates it first, so both are the empty list.

  A Go function that returns \<open>(x, error)\<close> returns \<open>Inr x\<close> or \<open>Inl (Error msg)\<close>;
  a run-time panic (nil dereference, failed type assertion, explicit \<open>panic\<close>) is
  \<open>Inl (Panic msg)\<close>. The store's "not found" error is told apart from all others, since
  \<open>k8serrors.IsNotFound\<close> and \<open>client.IgnoreNotFound\<close> ask for it; they look through
  wrapping, so \<open>fmt.Errorf("ctx: %w", err)\<close>, which is \<open>wrap ''ctx''\<close>, keeps the kind.
\<close>

datatype error = Error string | NotFound string | Panic string

fun wrap :: "string \<Rightarrow> error \<Rightarrow> error" where
  "wrap ctx (Error msg) = Error (ctx @ '': '' @ msg)"
| "wrap ctx (NotFound msg) = NotFound (ctx @ '': '' @ msg)"
| "wrap ctx (Panic msg) = Panic msg"

fun IsNotFound :: "error \<Rightarrow> bool" where
  "IsNotFound (NotFound msg) = True"
| "IsNotFound e = False"

text \<open>\<open>client.IgnoreNotFound\<close> applied to a non-nil error: nil (success) for "not found".\<close>

definition IgnoreNotFound :: "error \<Rightarrow> error + unit" where
  "IgnoreNotFound e = (if IsNotFound e then Inr () else Inl e)"

definition obj_delete :: "object \<Rightarrow> string \<Rightarrow> object" where
  "obj_delete m k = filter (\<lambda>kv. fst kv \<noteq> k) m"

definition obj_set :: "object \<Rightarrow> string \<Rightarrow> json \<Rightarrow> object" where
  "obj_set m k v = AList.update k v m"

subsection \<open>Accessors of unstructured objects\<close>

text \<open>
  \<open>unstructured.NestedFieldNoCopy\<close>: walk the fields; a missing field is "not found",
  a field reached through a value that is not a map is an error. The three outcomes are
  kept apart because \<open>NestedString\<close> and \<open>NestedStringMap\<close> treat them alike but the
  setters do not.
\<close>

datatype nested = Found json | Missing | NotAMap

fun NestedFieldNoCopy :: "json \<Rightarrow> string list \<Rightarrow> nested" where
  "NestedFieldNoCopy v [] = Found v"
| "NestedFieldNoCopy (JObj m) (f # fs) =
     (case map_of m f of None \<Rightarrow> Missing | Some v \<Rightarrow> NestedFieldNoCopy v fs)"
| "NestedFieldNoCopy v (f # fs) = NotAMap"

text \<open>
  \<open>unstructured.NestedString\<close> with its \<open>found\<close> and \<open>err\<close> results dropped, as every
  caller in \<open>resource.go\<close> drops them: the string at the path, or the empty string when
  the path is missing, runs through a non-map, or ends in a value that is not a string.
\<close>

definition NestedString :: "object \<Rightarrow> string list \<Rightarrow> string" where
  "NestedString obj path =
     (case NestedFieldNoCopy (JObj obj) path of
        Found (JStr s) \<Rightarrow> s
      | _ \<Rightarrow> [])"

section \<open>Library operations taken as parameters\<close>

text \<open>
  The JSON codec, the RFC 6902 patch and the RFC 7396 merge-patch libraries and the
  semantic equality of apimachinery are not part of the repository. The functions of
  \<open>resource.go\<close> are modelled over a record of these operations, one field per library
  call, each returning the library's error as a value.

  A \<open>jsonpatch.Patch\<close> is a list of operations; an operation is kept as the JSON object it
  was decoded from.
\<close>

type_synonym patch = "json list"

text \<open>\<open>patchMeta\<close> of \<open>resource.go\<close>; \<open>Ops\<close> is a slice and may be nil.\<close>

record patchMeta =
  APIVersion :: string
  pmKind :: string
  Ops :: "patch option"

record json_lib =
  MarshalJSON :: "object \<Rightarrow> error + string"
    \<comment> \<open>\<open>(*Unstructured).MarshalJSON\<close>\<close>
  UnmarshalJSON :: "string \<Rightarrow> error + object"
    \<comment> \<open>\<open>(*Unstructured).UnmarshalJSON\<close>, giving the decoded \<open>Object\<close>\<close>
  Unmarshal :: "string \<Rightarrow> error + object"
    \<comment> \<open>\<open>json.Unmarshal\<close> into a \<open>map[string]any\<close>\<close>
  PatchApply :: "patch \<Rightarrow> string \<Rightarrow> error + string"
    \<comment> \<open>\<open>jsonpatch.Patch.Apply\<close>\<close>
  CreateThreeWayJSONMergePatch :: "string \<Rightarrow> string \<Rightarrow> string \<Rightarrow> error + string"
    \<comment> \<open>\<open>jsonmergepatch.CreateThreeWayJSONMergePatch original modified current\<close>\<close>
  MergePatch :: "string \<Rightarrow> string \<Rightarrow> error + string"
    \<comment> \<open>\<open>jsonpatch.MergePatch doc patch\<close>\<close>
  UnmarshalPatch :: "string \<Rightarrow> error + patchMeta"
    \<comment> \<open>\<open>json.Unmarshal\<close> into \<open>struct { Patch patchMeta `json:"patch"` }\<close>\<close>
  DeepEqual :: "object \<Rightarrow> object \<Rightarrow> bool"
    \<comment> \<open>\<open>equality.Semantic.DeepEqual\<close> on two non-nil \<open>*Unstructured\<close>, compared by
        their \<open>Object\<close> maps\<close>

section \<open>Resources\<close>

record Ref =
  Name :: string
  Namespace :: string
  Group :: string
  Kind :: string

record GroupVersionKind =
  gvkGroup :: string
  gvkVersion :: string
  gvkKind :: string

record GroupKind =
  gkGroup :: string
  gkKind :: string

record ManifestRef =
  SliceNamespace :: string
  SliceName :: string
  Index :: nat

record Check =
  checkName :: string
  checkExpr :: string

text \<open>
  \<open>Resource\<close> of \<open>resource.go\<close>. Pointer fields are options, the nil slice \<open>Patch\<close> is
  \<open>None\<close>, durations are nanoseconds (\<open>time.Duration\<close> is an \<open>int64\<close>). The private field
  \<open>value\<close> wraps the parsed object; \<open>latestKnownState\<close> plays no part in the functions
  modelled and is left out.
\<close>

record Resource =
  Ref :: Ref
  ManifestDeleted :: bool
  ManifestRef :: ManifestRef
  ManifestHash :: "8 word list"
  ReconcileInterval :: "int option"
  GVK :: GroupVersionKind
  ReadinessChecks :: "Check list"
  Patch :: "patch option"
  DisableUpdates :: bool
  ReadinessGroup :: int
  Labels :: "(string \<times> string) list option"
  DefinedGroupKind :: "GroupKind option"
  val :: object

definition Unstructured :: "Resource \<Rightarrow> object" where
  "Unstructured r = val r"

subsection \<open>Compositions\<close>

text \<open>
  The fields of \<open>apiv1.Composition\<close> and \<open>apiv1.Synthesis\<close> that the modelled functions
  read or write. The reconstituter reads the syntheses as \<open>Status.PreviousState\<close> and
  \<open>Status.CurrentState\<close>; the slice controller reads \<open>Status.CurrentSynthesis\<close> and writes
  \<open>Status.PendingResynthesis\<close>. Timestamps are abstract instants.
\<close>

record Synthesis =
  UUID :: string
  ObservedCompositionGeneration :: int
  ResourceSliceCount :: "int option"
  ResourceSlices :: "string option list"
    \<comment> \<open>\<open>[]*ResourceSliceRef\<close>: each entry a pointer to a reference, here its \<open>Name\<close>\<close>

record Composition =
  compNamespace :: string
  compName :: string
  Generation :: int
  DeletionTimestamp :: "nat option"
  Annotations :: "(string \<times> string) list option"
  SynthesizerName :: string
  PreviousState :: "Synthesis option"
  CurrentState :: "Synthesis option"
  CurrentSynthesis :: "Synthesis option"
  PendingResynthesis :: "nat option"

record Synthesizer =
  synName :: string
  synGeneration :: int

text \<open>
  Two methods of \<open>apiv1.Composition\<close> are defined in a file of the repository that is not
  among the sources; the functions that call them take them as parameters.
\<close>

record api_v1 =
  ShouldOrphanResources :: "Composition \<Rightarrow> bool"
  NotEligibleForResynthesis :: "Composition \<Rightarrow> Synthesizer \<Rightarrow> bool"

subsection \<open>Patches: \<open>NeedsToBePatched\<close>, \<open>patchSetsDeletionTimestamp\<close>, \<open>Deleted\<close>\<close>

definition NeedsToBePatched :: "json_lib \<Rightarrow> Resource \<Rightarrow> object option \<Rightarrow> bool" where
  "NeedsToBePatched L r current =
     (case (Patch r, current) of
        (None, _) \<Rightarrow> False
      | (_, None) \<Rightarrow> False
      | (Some p, Some cur) \<Rightarrow>
          (case MarshalJSON L cur of
             Inl _ \<Rightarrow> False
           | Inr curjson \<Rightarrow>
               (case PatchApply L p curjson of
                  Inl _ \<Rightarrow> False
                | Inr patchedjson \<Rightarrow>
                    (case UnmarshalJSON L patchedjson of
                       Inl _ \<Rightarrow> False
                     | Inr patched \<Rightarrow> \<not> DeepEqual L cur patched))))"

text \<open>The placeholder literal of \<open>patchSetsDeletionTimestamp\<close>, byte for byte.\<close>

definition placeholder :: string where
  \<open>placeholder =
     ''{"apiVersion": "eno.azure.io/v1", "kind":"PatchPlaceholder", "metadata":{}}''\<close>

definition patchSetsDeletionTimestamp :: "json_lib \<Rightarrow> Resource \<Rightarrow> bool" where
  "patchSetsDeletionTimestamp L r =
     (case Patch r of
        None \<Rightarrow> False
      | Some p \<Rightarrow>
          (case PatchApply L p placeholder of
             Inl _ \<Rightarrow> False
           | Inr patchedjson \<Rightarrow>
               (case Unmarshal L patchedjson of
                  Inl _ \<Rightarrow> False
                | Inr patched \<Rightarrow>
                    NestedString patched [''metadata'', ''deletionTimestamp''] \<noteq> [])))"

definition Deleted :: "api_v1 \<Rightarrow> json_lib \<Rightarrow> Resource \<Rightarrow> Composition \<Rightarrow> bool" where
  "Deleted A L r c =
     ((DeletionTimestamp c \<noteq> None \<and> \<not> ShouldOrphanResources A c)
      \<or> ManifestDeleted r
      \<or> (Patch r \<noteq> None \<and> patchSetsDeletionTimestamp L r))"

subsection \<open>The merge: \<open>Resource.Merge\<close>\<close>

text \<open>
  The structured-merge-diff library is a parameter too. A \<open>typed.TypedValue\<close> is the
  library's struct of a value, a type reference and a schema, so \<open>AsTypedUnvalidated\<close>
  only builds it and \<open>AsTyped\<close> builds it and validates. A \<open>typed.Comparison\<close> holds three
  sets of field paths; \<open>IsSame\<close> is the library's one-line test that all three are empty.
  Schemas (\<open>'sch\<close>), type references (\<open>'tr\<close>) and field paths (\<open>'p\<close>) are left abstract.
\<close>

record ('sch, 'tr) TypedValue =
  tvValue :: json
  tvTypeRef :: 'tr
  tvSchema :: 'sch

record 'p Comparison =
  Removed :: "'p set"
  Modified :: "'p set"
  Added :: "'p set"

definition IsSame :: "'p Comparison \<Rightarrow> bool" where
  "IsSame c = (Removed c = {} \<and> Modified c = {} \<and> Added c = {})"

record ('sch, 'tr, 'p) smd_lib =
  Validate :: "('sch, 'tr) TypedValue \<Rightarrow> error option"
    \<comment> \<open>\<open>(*TypedValue).Validate\<close>: \<open>None\<close> is the nil error\<close>
  tvMerge :: "('sch, 'tr) TypedValue \<Rightarrow> ('sch, 'tr) TypedValue \<Rightarrow> error + ('sch, 'tr) TypedValue"
    \<comment> \<open>\<open>lhs.Merge(rhs)\<close>\<close>
  tvCompare :: "('sch, 'tr) TypedValue \<Rightarrow> ('sch, 'tr) TypedValue \<Rightarrow> error + 'p Comparison"
    \<comment> \<open>\<open>lhs.Compare(rhs)\<close>\<close>
  RemoveItems :: "('sch, 'tr) TypedValue \<Rightarrow> 'p set \<Rightarrow> ('sch, 'tr) TypedValue"
    \<comment> \<open>\<open>tv.RemoveItems(items)\<close>\<close>

definition AsTypedUnvalidated :: "json \<Rightarrow> 'sch \<Rightarrow> 'tr \<Rightarrow> ('sch, 'tr) TypedValue" where
  "AsTypedUnvalidated v schem typeref = \<lparr>tvValue = v, tvTypeRef = typeref, tvSchema = schem\<rparr>"

definition AsTyped ::
  "('sch, 'tr, 'p) smd_lib \<Rightarrow> json \<Rightarrow> 'sch \<Rightarrow> 'tr \<Rightarrow> error + ('sch, 'tr) TypedValue" where
  "AsTyped S v schem typeref =
     (let tv = \<lparr>tvValue = v, tvTypeRef = typeref, tvSchema = schem\<rparr>
      in case Validate S tv of Some e \<Rightarrow> Inl e | None \<Rightarrow> Inr tv)"

text \<open>
  \<open>SchemaGetter.Get\<close> is the interface the caller passes in: for a GVK it returns an error,
  or a type reference (or nil) with a schema pointer.
\<close>

type_synonym ('sch, 'tr) SchemaGetter = "GroupVersionKind \<Rightarrow> error + ('tr option \<times> 'sch)"

text \<open>
  The result of \<open>Merge\<close> is \<open>(*Unstructured, typed bool)\<close> or an error; a nil object is
  \<open>None\<close>: nothing to write. The live object \<open>current\<close> is a pointer that both branches
  dereference without a check.

  \<open>three_way_merge\<close> is the branch \<open>if typeref == nil\<close> up to the parsing of the patched
  document (lines 144 to 175). \<open>prevJS\<close> stays the nil slice, the empty byte string, when
  \<open>old\<close> is nil.
\<close>

definition three_way_merge ::
  "json_lib \<Rightarrow> Resource \<Rightarrow> Resource option \<Rightarrow> object \<Rightarrow> error + object" where
  "three_way_merge L r old cur =
     (case MarshalJSON L cur of
        Inl e \<Rightarrow> Inl (wrap ''encoding current state'' e)
      | Inr currentJS \<Rightarrow>
     (case (case old of None \<Rightarrow> Inr [] | Some ol \<Rightarrow> MarshalJSON L (Unstructured ol)) of
        Inl e \<Rightarrow> Inl (wrap ''encoding old state'' e)
      | Inr prevJS \<Rightarrow>
     (case MarshalJSON L (Unstructured r) of
        Inl e \<Rightarrow> Inl (wrap ''encoding expected state'' e)
      | Inr expectedJS \<Rightarrow>
     (case CreateThreeWayJSONMergePatch L prevJS expectedJS currentJS of
        Inl e \<Rightarrow> Inl (wrap ''building merge patch'' e)
      | Inr patch \<Rightarrow>
     (case MergePatch L currentJS patch of
        Inl e \<Rightarrow> Inl (wrap ''applying merge patch'' e)
      | Inr patchedJSON \<Rightarrow>
     (case UnmarshalJSON L patchedJSON of
        Inl e \<Rightarrow> Inl (wrap ''parsing patched resource'' e)
      | Inr patched \<Rightarrow> Inr patched))))))"

text \<open>The whole branch (lines 143 to 181): the comparison with \<open>current\<close> decides.\<close>

definition Merge_untyped ::
  "json_lib \<Rightarrow> Resource \<Rightarrow> Resource option \<Rightarrow> object option \<Rightarrow> error + (object option \<times> bool)" where
  "Merge_untyped L r old current =
     (case current of
        None \<Rightarrow> Inl (Panic ''nil pointer dereference'')
      | Some cur \<Rightarrow>
          (case three_way_merge L r old cur of
             Inl e \<Rightarrow> Inl e
           | Inr patched \<Rightarrow>
               if DeepEqual L cur patched then Inr (None, False)
               else Inr (Some patched, False)))"

text \<open>
  \<open>structured_merge\<close> is the schema-aware path up to the pruning (lines 184 to 205): the
  new state merged onto the current one, then, when there is an old state, the paths
  that the comparison of old and new reports as removed taken out.
\<close>

definition structured_merge ::
  "('sch, 'tr, 'p) smd_lib \<Rightarrow> Resource \<Rightarrow> Resource option \<Rightarrow> object \<Rightarrow> 'sch \<Rightarrow> 'tr \<Rightarrow>
     error + ('sch, 'tr) TypedValue" where
  "structured_merge S r old cur schem typeref =
     (let currentVal = JObj cur;
          typedNew = AsTypedUnvalidated (JObj (val r)) schem typeref;
          typedCurrent = AsTypedUnvalidated currentVal schem typeref
      in
     (case tvMerge S typedCurrent typedNew of
        Inl e \<Rightarrow> Inl (wrap ''merging new state into current'' e)
      | Inr merged \<Rightarrow>
     (case old of
        None \<Rightarrow> Inr merged
      | Some ol \<Rightarrow>
          (case AsTyped S (JObj (val ol)) schem typeref of
             Inl e \<Rightarrow> Inl (wrap ''converting old version to typed'' e)
           | Inr typedOld \<Rightarrow>
               (case tvCompare S typedOld typedNew of
                  Inl e \<Rightarrow> Inl (wrap ''comparing new and old states'' e)
                | Inr toOld \<Rightarrow> Inr (RemoveItems S merged (Removed toOld)))))))"

text \<open>
  The rest of \<open>Merge\<close> (lines 207 to 214). The merged value is skipped only when the
  comparison returns no error and reports no difference. The last line asserts that the
  merged value is a \<open>map[string]any\<close>; the assertion has no \<open>ok\<close> result, so any other
  value panics.
\<close>

definition Merge_typed ::
  "('sch, 'tr, 'p) smd_lib \<Rightarrow> Resource \<Rightarrow> Resource option \<Rightarrow> object option \<Rightarrow> 'sch \<Rightarrow> 'tr \<Rightarrow>
     error + (object option \<times> bool)" where
  "Merge_typed S r old current schem typeref =
     (case current of
        None \<Rightarrow> Inl (Panic ''nil pointer dereference'')
      | Some cur \<Rightarrow>
          (case structured_merge S r old cur schem typeref of
             Inl e \<Rightarrow> Inl e
           | Inr merged \<Rightarrow>
               if (case tvCompare S merged (AsTypedUnvalidated (JObj cur) schem typeref) of
                     Inl _ \<Rightarrow> False
                   | Inr c \<Rightarrow> IsSame c)
               then Inr (None, True)
               else (case tvValue merged of
                       JObj m \<Rightarrow> Inr (Some m, True)
                     | _ \<Rightarrow> Inl (Panic ''interface conversion''))))"

definition Merge ::
  "json_lib \<Rightarrow> ('sch, 'tr, 'p) smd_lib \<Rightarrow> Resource \<Rightarrow> Resource option \<Rightarrow> object option \<Rightarrow>
     ('sch, 'tr) SchemaGetter \<Rightarrow> error + (object option \<times> bool)" where
  "Merge L S r old current sg =
     (case sg (GVK r) of
        Inl e \<Rightarrow> Inl (wrap ''looking up schema'' e)
      | Inr (typeref, schem) \<Rightarrow>
          (case typeref of
             None \<Rightarrow> Merge_untyped L r old current
           | Some tr \<Rightarrow> Merge_typed S r old current schem tr))"

subsection \<open>The parser: \<open>NewResource\<close>\<close>

text \<open>
  The helpers of \<open>unstructured.Unstructured\<close> that \<open>NewResource\<close> calls, after the
  library's code: getters return the zero value when the path is missing or of the wrong
  type; \<open>RemoveNestedField\<close> walks maps and gives up silently at the first field that is
  not a map; \<open>SetNestedField\<close> creates the maps that are missing and gives up at a field
  that holds something else.
\<close>

definition GetName :: "object \<Rightarrow> string" where
  "GetName obj = NestedString obj [''metadata'', ''name'']"

definition GetNamespace :: "object \<Rightarrow> string" where
  "GetNamespace obj = NestedString obj [''metadata'', ''namespace'']"

definition GetKind :: "object \<Rightarrow> string" where
  "GetKind obj = NestedString obj [''kind'']"

definition GetAPIVersion :: "object \<Rightarrow> string" where
  "GetAPIVersion obj = NestedString obj [''apiVersion'']"

fun RemoveNestedField :: "object \<Rightarrow> string list \<Rightarrow> object" where
  "RemoveNestedField m [] = m"
| "RemoveNestedField m [f] = obj_delete m f"
| "RemoveNestedField m (f # fs) =
     (case map_of m f of
        Some (JObj m') \<Rightarrow> obj_set m f (JObj (RemoveNestedField m' fs))
      | _ \<Rightarrow> m)"

fun SetNestedField :: "object \<Rightarrow> json \<Rightarrow> string list \<Rightarrow> object" where
  "SetNestedField m v [] = m"
| "SetNestedField m v [f] = obj_set m f v"
| "SetNestedField m v (f # fs) =
     (case map_of m f of
        Some (JObj m') \<Rightarrow> obj_set m f (JObj (SetNestedField m' v fs))
      | Some _ \<Rightarrow> m
      | None \<Rightarrow> obj_set m f (JObj (SetNestedField [] v fs)))"

text \<open>
  \<open>NestedStringMap\<close>, as \<open>GetLabels\<close> and \<open>GetAnnotations\<close> use it: the map at the path
  when it is a map whose values are all strings, nil otherwise.
\<close>

fun string_values :: "(string \<times> json) list \<Rightarrow> (string \<times> string) list option" where
  "string_values [] = Some []"
| "string_values ((k, JStr s) # kvs) =
     (case string_values kvs of None \<Rightarrow> None | Some r \<Rightarrow> Some ((k, s) # r))"
| "string_values ((k, v) # kvs) = None"

definition NestedStringMap :: "object \<Rightarrow> string list \<Rightarrow> (string \<times> string) list option" where
  "NestedStringMap obj path =
     (case NestedFieldNoCopy (JObj obj) path of
        Found (JObj m) \<Rightarrow> string_values m
      | _ \<Rightarrow> None)"

definition GetLabels :: "object \<Rightarrow> (string \<times> string) list option" where
  "GetLabels obj = NestedStringMap obj [''metadata'', ''labels'']"

definition GetAnnotations :: "object \<Rightarrow> (string \<times> string) list option" where
  "GetAnnotations obj = NestedStringMap obj [''metadata'', ''annotations'']"

definition SetAnnotations :: "object \<Rightarrow> (string \<times> string) list option \<Rightarrow> object" where
  "SetAnnotations obj annotations =
     (case annotations of
        None \<Rightarrow> RemoveNestedField obj [''metadata'', ''annotations'']
      | Some m \<Rightarrow>
          SetNestedField obj (JObj (map (\<lambda>(k, s). (k, JStr s)) m)) [''metadata'', ''annotations''])"

definition SetLabels :: "object \<Rightarrow> (string \<times> string) list option \<Rightarrow> object" where
  "SetLabels obj labels =
     (case labels of
        None \<Rightarrow> RemoveNestedField obj [''metadata'', ''labels'']
      | Some m \<Rightarrow>
          SetNestedField obj (JObj (map (\<lambda>(k, s). (k, JStr s)) m)) [''metadata'', ''labels''])"

text \<open>
  \<open>SetCreationTimestamp\<close> is only ever called with the zero \<open>metav1.Time\<close>, for which the
  library removes the field.
\<close>

definition SetCreationTimestamp_zero :: "object \<Rightarrow> object" where
  "SetCreationTimestamp_zero obj = RemoveNestedField obj [''metadata'', ''creationTimestamp'']"

text \<open>\<open>schema.ParseGroupVersion\<close>: no slash is a bare version, one slash splits group and
  version, more are an error; the empty string and \<open>/\<close> are the empty group-version.\<close>

definition ParseGroupVersion :: "string \<Rightarrow> error + (string \<times> string)" where
  "ParseGroupVersion gv =
     (if gv = [] \<or> gv = ''/'' then Inr ([], [])
      else if length (filter (\<lambda>c. c = CHR ''/'') gv) = 0 then Inr ([], gv)
      else if length (filter (\<lambda>c. c = CHR ''/'') gv) = 1
        then Inr (takeWhile (\<lambda>c. c \<noteq> CHR ''/'') gv, tl (dropWhile (\<lambda>c. c \<noteq> CHR ''/'') gv))
      else Inl (Error (''unexpected GroupVersion string: '' @ gv)))"

definition GroupVersionKind_of :: "object \<Rightarrow> GroupVersionKind" where
  "GroupVersionKind_of obj =
     (case ParseGroupVersion (GetAPIVersion obj) of
        Inl _ \<Rightarrow> \<lparr>gvkGroup = [], gvkVersion = [], gvkKind = []\<rparr>
      | Inr (g, v) \<Rightarrow> \<lparr>gvkGroup = g, gvkVersion = v, gvkKind = GetKind obj\<rparr>)"

definition patchGVK :: GroupVersionKind where
  "patchGVK = \<lparr>gvkGroup = ''eno.azure.io'', gvkVersion = ''v1'', gvkKind = ''Patch''\<rparr>"

text \<open>\<open>strings.HasPrefix\<close> and \<open>strings.TrimPrefix\<close>.\<close>

definition HasPrefix :: "string \<Rightarrow> string \<Rightarrow> bool" where
  "HasPrefix s pre = (take (length pre) s = pre)"

definition TrimPrefix :: "string \<Rightarrow> string \<Rightarrow> string" where
  "TrimPrefix s pre = (if HasPrefix s pre then drop (length pre) s else s)"

definition pruneMetadata :: "(string \<times> string) list option \<Rightarrow> (string \<times> string) list option" where
  "pruneMetadata m =
     (case m of
        None \<Rightarrow> None
      | Some kvs \<Rightarrow>
          (let kept = filter (\<lambda>(key, value). \<not> HasPrefix key ''eno.azure.io/'') kvs
           in if length kept = 0 then None else Some kept))"

text \<open>
  \<open>hash/fnv\<close>, \<open>New64\<close>: the 64-bit FNV-1 hash (multiply by the prime, then xor the
  byte), and \<open>Sum(nil)\<close>: its eight bytes, most significant first.
\<close>

definition offset64 :: "64 word" where
  "offset64 = 14695981039346656037"

definition prime64 :: "64 word" where
  "prime64 = 1099511628211"

definition fnv64 :: "string \<Rightarrow> 64 word" where
  "fnv64 s = foldl (\<lambda>h c. xor (h * prime64) (of_nat (of_char c))) offset64 s"

definition Sum64 :: "64 word \<Rightarrow> 8 word list" where
  "Sum64 h = map (\<lambda>i. ucast (drop_bit (8 * i) h)) [7, 6, 5, 4, 3, 2, 1, 0]"

text \<open>
  The parsers of the standard library and of the readiness package, as parameters:
  \<open>time.ParseDuration\<close> and \<open>strconv.Atoi\<close> return the zero value with their error, so
  \<open>None\<close> stands for the error; \<open>readiness.ParseCheck\<close> compiles an expression.
\<close>

record parse_lib =
  ParseDuration :: "string \<Rightarrow> int option"
  Atoi :: "string \<Rightarrow> int option"
  ParseCheck :: "string \<Rightarrow> error + Check"

text \<open>The manifest of a slice: \<open>apiv1.Manifest\<close>, and the slice itself.\<close>

record Manifest =
  manifest :: string
  mDeleted :: bool

record ResourceSlice =
  sliceNamespace :: string
  sliceName :: string
  Resources :: "Manifest list"

text \<open>
  The annotation blocks of \<open>NewResource\<close>, in source order. Each returns what it stores in
  the resource together with the lines it logs.

  Lines 292 to 299: when the key is present, the interval is set to whatever
  \<open>ParseDuration\<close> returned, which is zero when it failed; the log line is written for a
  value that is not empty and does not parse.
\<close>

definition reconcileIntervalKey :: string where
  "reconcileIntervalKey = ''eno.azure.io/reconcile-interval''"

definition reconcile_interval :: "parse_lib \<Rightarrow> (string \<times> string) list \<Rightarrow> int option \<times> string list" where
  "reconcile_interval P anno =
     (case map_of anno reconcileIntervalKey of
        None \<Rightarrow> (None, [])
      | Some str \<Rightarrow>
          (let parsed = ParseDuration P str;
               reconcileInterval = (case parsed of None \<Rightarrow> 0 | Some d \<Rightarrow> d);
               logs = (if str \<noteq> [] \<and> parsed = None
                       then [''invalid reconcile interval - ignoring''] else [])
           in (Some reconcileInterval, logs)))"

definition readinessGroupKey :: string where
  "readinessGroupKey = ''eno.azure.io/readiness-group''"

definition readiness_group :: "parse_lib \<Rightarrow> (string \<times> string) list \<Rightarrow> int \<times> string list" where
  "readiness_group P anno =
     (case map_of anno readinessGroupKey of
        None \<Rightarrow> (0, [])
      | Some str \<Rightarrow>
          (case Atoi P str of
             None \<Rightarrow> (0, [''invalid readiness group - ignoring''])
           | Some rg \<Rightarrow> (rg, [])))"

text \<open>
  Lines 314 to 332: the loop over the annotations. Go ranges over the map in no fixed
  order and \<open>sort.Slice\<close> is not stable; the model visits the bindings in list order and
  sorts stably, which fixes one of the orders Go may produce when two checks share a name.
\<close>

fun readiness_checks :: "parse_lib \<Rightarrow> (string \<times> string) list \<Rightarrow> Check list \<times> string list" where
  "readiness_checks P [] = ([], [])"
| "readiness_checks P ((key, value) # rest) =
     (let (cs, logs) = readiness_checks P rest
      in if \<not> HasPrefix key ''eno.azure.io/readiness'' \<or> key = readinessGroupKey then (cs, logs)
         else
           (let name0 = TrimPrefix key ''eno.azure.io/readiness-'';
                name = (if name0 = ''eno.azure.io/readiness'' then ''default'' else name0)
            in case ParseCheck P value of
                 Inl e \<Rightarrow> (cs, ''invalid cel expression'' # logs)
               | Inr check \<Rightarrow> (check\<lparr>checkName := name\<rparr> # cs, logs)))"

text \<open>
  \<open>NewResource\<close>. The index is read without a bounds check, so an index past the end
  panics (indexes are naturals here; a negative Go index panics as well). The parsed object is shared with the resource's \<open>value\<close>: the pruning of
  annotations and labels in the last lines changes the interned value too, so \<open>val\<close> is
  the object as it stands at the end.
\<close>

definition NewResource ::
  "json_lib \<Rightarrow> parse_lib \<Rightarrow> ResourceSlice \<Rightarrow> nat \<Rightarrow> error + (Resource \<times> string list)" where
  "NewResource L P sl idx =
     (if idx \<ge> length (Resources sl) then Inl (Panic ''idx out of range'')
      else
     (let resource = Resources sl ! idx;
          hash = Sum64 (fnv64 (manifest resource))
      in
     (case UnmarshalJSON L (manifest resource) of
        Inl e \<Rightarrow> Inl (wrap ''invalid json'' e)
      | Inr parsed0 \<Rightarrow>
     (let parsed = (if parsed0 \<noteq> []
                    then SetCreationTimestamp_zero (obj_delete parsed0 ''status'')
                    else parsed0);
          gvk = GroupVersionKind_of parsed;
          ref = \<lparr>Name = GetName parsed, Namespace = GetNamespace parsed,
                 Group = gvkGroup (GroupVersionKind_of parsed), Kind = GetKind parsed\<rparr>
      in
     if Name ref = [] \<or> Kind ref = [] \<or> GetAPIVersion parsed = []
     then Inl (Error ''missing name, kind, or apiVersion'')
     else
     (case (if gvk = patchGVK
            then (case UnmarshalPatch L (manifest resource) of
                    Inl e \<Rightarrow> Inl (wrap ''parsing patch json'' e)
                  | Inr pm \<Rightarrow>
                      (case ParseGroupVersion (APIVersion pm) of
                         Inl e \<Rightarrow> Inl (wrap ''parsing patch apiVersion'' e)
                       | Inr (g, v) \<Rightarrow>
                           Inr (\<lparr>gvkGroup = g, gvkVersion = v, gvkKind = pmKind pm\<rparr>, Ops pm)))
            else Inr (gvk, None)) of
        Inl e \<Rightarrow> Inl e
      | Inr (gvk', patch) \<Rightarrow>
     (let dgk = (if gvkGroup gvk' = ''apiextensions.k8s.io'' \<and> gvkKind gvk' = ''CustomResourceDefinition''
                 then Some \<lparr>gkGroup = NestedString parsed [''spec'', ''group''],
                            gkKind = NestedString parsed [''spec'', ''names'', ''kind'']\<rparr>
                 else None);
          labels = GetLabels parsed;
          anno = (case GetAnnotations parsed of None \<Rightarrow> [] | Some a \<Rightarrow> a);
          (interval, logs1) = reconcile_interval P anno;
          (rg, logs2) = readiness_group P anno;
          (checks, logs3) = readiness_checks P anno;
          parsed' = SetAnnotations parsed (pruneMetadata (GetAnnotations parsed));
          parsed'' = SetLabels parsed' (pruneMetadata (GetLabels parsed'))
      in Inr (\<lparr>Ref = ref,
                ManifestDeleted = mDeleted resource,
                ManifestRef = \<lparr>SliceNamespace = sliceNamespace sl, SliceName = sliceName sl,
                                Index = idx\<rparr>,
                ManifestHash = hash,
                ReconcileInterval = interval,
                GVK = gvk',
                ReadinessChecks = sort_key checkName checks,
                Patch = patch,
                DisableUpdates = (map_of anno ''eno.azure.io/disable-updates'' = Some ''true''),
                ReadinessGroup = rg,
                Labels = labels,
                DefinedGroupKind = dgk,
                val = parsed''\<rparr>,
              logs1 @ logs2 @ logs3)))))))"

text \<open>\<open>Less\<close>: \<open>bytes.Compare\<close> of the two hashes is below zero.\<close>

fun bytes_less :: "8 word list \<Rightarrow> 8 word list \<Rightarrow> bool" where
  "bytes_less [] [] = False"
| "bytes_less [] (y # ys) = True"
| "bytes_less (x # xs) [] = False"
| "bytes_less (x # xs) (y # ys) = (x < y \<or> (x = y \<and> bytes_less xs ys))"

definition Less :: "Resource \<Rightarrow> Resource \<Rightarrow> bool" where
  "Less r than = bytes_less (ManifestHash r) (ManifestHash than)"

text \<open>
  What the specification says is stripped, in its own words and not taken from the code:
  the \<open>status\<close> field, and a \<open>metadata.creationTimestamp\<close> that holds the zero value,
  which a \<open>metav1.Time\<close> encodes as JSON \<open>null\<close>. Two objects differ only in \<open>status\<close> or a
  zero \<open>creationTimestamp\<close> when this function sends them to the same object.
\<close>

definition drop_status_and_zero_creationTimestamp :: "object \<Rightarrow> object" where
  "drop_status_and_zero_creationTimestamp obj =
     (let obj' = obj_delete obj ''status''
      in case NestedFieldNoCopy (JObj obj') [''metadata'', ''creationTimestamp''] of
           Found JNull \<Rightarrow> RemoveNestedField obj' [''metadata'', ''creationTimestamp'']
         | _ \<Rightarrow> obj')"

section \<open>The reconstituter\<close>

text \<open>
  The reconstituter holds the cache, the subscriber queues and the flag \<open>started\<close>. The
  cache type (\<open>newCache\<close>, \<open>HasSynthesis\<close>, \<open>Fill\<close>, \<open>Purge\<close>) is defined in a file of the
  package that is not among the sources: its state \<open>'c\<close> and its three methods are
  parameters, as are the two reads of the store. \<open>Fill\<close> returns the cache as it leaves
  it together with the work items or its error. A queue is the list of the items added
  to it, oldest first; \<open>'q\<close> is the type of a work item.
\<close>

type_synonym NamespacedName = "string \<times> string"

record ('c, 'q) reconstituter =
  cache :: 'c
  queues :: "'q list list"
  started :: bool

record ('c, 'q) recon_env =
  clientGet :: "NamespacedName \<Rightarrow> error + Composition"
    \<comment> \<open>\<open>client.Get\<close> of a composition\<close>
  clientList :: "string \<Rightarrow> string \<times> int \<Rightarrow> error + ResourceSlice list"
    \<comment> \<open>\<open>client.List\<close> of the slices in a namespace, by composition name and generation\<close>
  HasSynthesis :: "'c \<Rightarrow> NamespacedName \<Rightarrow> Synthesis \<Rightarrow> bool"
  Fill :: "'c \<Rightarrow> NamespacedName \<Rightarrow> Synthesis \<Rightarrow> ResourceSlice list \<Rightarrow> (error + 'q list) \<times> 'c"
  Purge :: "'c \<Rightarrow> NamespacedName \<Rightarrow> Composition option \<Rightarrow> 'c"

definition AddQueue :: "('c, 'q) reconstituter \<Rightarrow> 'q list \<Rightarrow> error + ('c, 'q) reconstituter" where
  "AddQueue r queue =
     (if started r then Inl (Panic ''AddQueue must be called before any resources are reconciled'')
      else Inr (r\<lparr>queues := queues r @ [queue]\<rparr>))"

definition populateCache ::
  "('c, 'q) recon_env \<Rightarrow> ('c, 'q) reconstituter \<Rightarrow> Composition \<Rightarrow> Synthesis option \<Rightarrow>
     (error + unit) \<times> ('c, 'q) reconstituter" where
  "populateCache E r c synthesis =
     (case synthesis of
        None \<Rightarrow> (Inr (), r)
      | Some syn \<Rightarrow>
     (case ResourceSliceCount syn of
        None \<Rightarrow> (Inr (), r)
      | Some count \<Rightarrow>
     (let compNSN = (compNamespace c, compName c)
      in
     if HasSynthesis E (cache r) compNSN syn then (Inr (), r)
     else
     (case clientList E (compNamespace c) (compName c, ObservedCompositionGeneration syn) of
        Inl e \<Rightarrow> (Inl (wrap ''listing resource slices'' e), r)
      | Inr slices \<Rightarrow>
          if int (length slices) \<noteq> count then (Inr (), r)
          else
            (case Fill E (cache r) compNSN syn slices of
               (Inl e, c') \<Rightarrow> (Inl e, r\<lparr>cache := c'\<rparr>)
             | (Inr reqs, c') \<Rightarrow>
                 (Inr (), r\<lparr>cache := c', queues := map (\<lambda>queue. queue @ reqs) (queues r)\<rparr>))))))"

definition Reconcile ::
  "('c, 'q) recon_env \<Rightarrow> ('c, 'q) reconstituter \<Rightarrow> NamespacedName \<Rightarrow>
     (error + unit) \<times> ('c, 'q) reconstituter" where
  "Reconcile E r0 req =
     (let r = r0\<lparr>started := True\<rparr>
      in
     (case clientGet E req of
        Inl e \<Rightarrow>
          if IsNotFound e then (Inr (), r\<lparr>cache := Purge E (cache r) req None\<rparr>)
          else (Inl (wrap ''getting resource'' e), r)
      | Inr c \<Rightarrow>
     (case populateCache E r c (PreviousState c) of
        (Inl e, r1) \<Rightarrow> (Inl (wrap ''processing previous state'' e), r1)
      | (Inr _, r1) \<Rightarrow>
     (case populateCache E r1 c (CurrentState c) of
        (Inl e, r2) \<Rightarrow> (Inl (wrap ''processing current state'' e), r2)
      | (Inr _, r2) \<Rightarrow> (Inr (), r2\<lparr>cache := Purge E (cache r2) req (Some c)\<rparr>)))))"

text \<open>
  The calls a process makes on one reconstituter, in order. A panic ends the run; an
  error returned by \<open>Reconcile\<close> does not (the controller runtime requeues the request).
\<close>

datatype 'q call = CallAddQueue "'q list" | CallReconcile NamespacedName

fun run ::
  "('c, 'q) recon_env \<Rightarrow> ('c, 'q) reconstituter \<Rightarrow> 'q call list \<Rightarrow> error + ('c, 'q) reconstituter" where
  "run E r [] = Inr r"
| "run E r (CallAddQueue queue # calls) =
     (case AddQueue r queue of Inl e \<Rightarrow> Inl e | Inr r' \<Rightarrow> run E r' calls)"
| "run E r (CallReconcile req # calls) = run E (snd (Reconcile E r req)) calls"

section \<open>The slice controller\<close>

text \<open>
  \<open>sliceController.Reconcile\<close> of \<open>slice.go\<close>. The store is reached through the client:
  three reads and the status update, parameters here; \<open>now\<close> is the reading of
  \<open>metav1.Now()\<close>. The pass returns its result together with the status updates it
  issued, each the composition as it was sent.
\<close>

record slice_env =
  getComposition :: "NamespacedName \<Rightarrow> error + Composition"
  getSynthesizer :: "string \<Rightarrow> error + Synthesizer"
  getSlice :: "NamespacedName \<Rightarrow> error + ResourceSlice"
  statusUpdate :: "Composition \<Rightarrow> error option"
  now :: nat

text \<open>The loop over \<open>comp.Status.CurrentSynthesis.ResourceSlices\<close> (lines 66 to 84).\<close>

fun check_slices ::
  "slice_env \<Rightarrow> Composition \<Rightarrow> string option list \<Rightarrow> (error + unit) \<times> Composition list" where
  "check_slices E c [] = (Inr (), [])"
| "check_slices E c (None # refs) = (Inl (Panic ''nil pointer dereference''), [])"
| "check_slices E c (Some name # refs) =
     (case getSlice E (compNamespace c, name) of
        Inr _ \<Rightarrow> check_slices E c refs
      | Inl e \<Rightarrow>
          if IsNotFound e then
            (let c' = c\<lparr>PendingResynthesis := Some (now E)\<rparr>
             in case statusUpdate E c' of
                  Some e' \<Rightarrow> (Inl (wrap ''swapping compisition state'' e'), [c'])
                | None \<Rightarrow> (Inr (), [c']))
          else (IgnoreNotFound (wrap ''getting resource slice'' e), []))"

definition sliceReconcile ::
  "api_v1 \<Rightarrow> slice_env \<Rightarrow> NamespacedName \<Rightarrow> (error + unit) \<times> Composition list" where
  "sliceReconcile A E req =
     (case getComposition E req of
        Inl e \<Rightarrow> (Inl (wrap ''getting composition'' e), [])
      | Inr c \<Rightarrow>
     (case getSynthesizer E (SynthesizerName c) of
        Inl e \<Rightarrow> (IgnoreNotFound (wrap ''gettting synthesizer'' e), [])
      | Inr syn \<Rightarrow>
          if NotEligibleForResynthesis A c syn then (Inr (), [])
          else
            (case CurrentSynthesis c of
               None \<Rightarrow> (Inl (Panic ''nil pointer dereference''), [])
             | Some cs \<Rightarrow> check_slices E c (ResourceSlices cs))))"

section \<open>Concrete instances\<close>

text \<open>
  The theorems below hold for every implementation of the library operations. The
  instances here fix one implementation each, small enough to evaluate, on which the
  theorems are exercised and the examples are run.
\<close>

subsection \<open>Documents and a table-driven JSON library\<close>

definition cm_text :: string where
  \<open>cm_text = ''{"apiVersion":"v1","kind":"ConfigMap","metadata":{"name":"foo"}}''\<close>

definition cm_obj :: object where
  "cm_obj = [(''apiVersion'', JStr ''v1''), (''kind'', JStr ''ConfigMap''),
             (''metadata'', JObj [(''name'', JStr ''foo'')])]"

definition cm_status_text :: string where
  \<open>cm_status_text =
     ''{"apiVersion":"v1","kind":"ConfigMap","metadata":{"name":"foo"},"status":{}}''\<close>

definition cm_status_obj :: object where
  "cm_status_obj = [(''apiVersion'', JStr ''v1''), (''kind'', JStr ''ConfigMap''),
                    (''metadata'', JObj [(''name'', JStr ''foo'')]), (''status'', JObj [])]"

definition cm_null_text :: string where
  \<open>cm_null_text =
     ''{"apiVersion":"v1","kind":"ConfigMap","metadata":{"name":"foo","creationTimestamp":null},"status":{}}''\<close>

definition cm_null_obj :: object where
  "cm_null_obj = [(''apiVersion'', JStr ''v1''), (''kind'', JStr ''ConfigMap''),
                  (''metadata'', JObj [(''name'', JStr ''foo''), (''creationTimestamp'', JNull)]),
                  (''status'', JObj [])]"

definition cm_data_text :: string where
  \<open>cm_data_text =
     ''{"apiVersion":"v1","kind":"ConfigMap","metadata":{"name":"foo"},"data":{"foo":"bar"}}''\<close>

definition cm_data_obj :: object where
  "cm_data_obj = [(''apiVersion'', JStr ''v1''), (''kind'', JStr ''ConfigMap''),
                  (''metadata'', JObj [(''name'', JStr ''foo'')]),
                  (''data'', JObj [(''foo'', JStr ''bar'')])]"

definition cm_bogus_text :: string where
  \<open>cm_bogus_text =
     ''{"apiVersion":"v1","kind":"ConfigMap","metadata":{"name":"foo","annotations":{"eno.azure.io/reconcile-interval":"bogus"}}}''\<close>

definition cm_bogus_obj :: object where
  "cm_bogus_obj = [(''apiVersion'', JStr ''v1''), (''kind'', JStr ''ConfigMap''),
                   (''metadata'', JObj [(''name'', JStr ''foo''),
                      (''annotations'', JObj [(''eno.azure.io/reconcile-interval'', JStr ''bogus'')])])]"

definition placeholder_obj :: object where
  "placeholder_obj = [(''apiVersion'', JStr ''eno.azure.io/v1''), (''kind'', JStr ''PatchPlaceholder''),
                      (''metadata'', JObj [])]"

definition deleted_text :: string where
  \<open>deleted_text =
     ''{"apiVersion":"eno.azure.io/v1","kind":"PatchPlaceholder","metadata":{"deletionTimestamp":"anything"}}''\<close>

definition deleted_obj :: object where
  "deleted_obj = [(''apiVersion'', JStr ''eno.azure.io/v1''), (''kind'', JStr ''PatchPlaceholder''),
                  (''metadata'', JObj [(''deletionTimestamp'', JStr ''anything'')])]"

definition placeholder_data_text :: string where
  \<open>placeholder_data_text =
     ''{"apiVersion":"eno.azure.io/v1","kind":"PatchPlaceholder","metadata":{},"data":{"foo":"bar"}}''\<close>

definition placeholder_data_obj :: object where
  "placeholder_data_obj = [(''apiVersion'', JStr ''eno.azure.io/v1''), (''kind'', JStr ''PatchPlaceholder''),
                           (''metadata'', JObj []), (''data'', JObj [(''foo'', JStr ''bar'')])]"

definition data_patch_text :: string where
  \<open>data_patch_text = ''{"data":{"foo":"bar"}}''\<close>

text \<open>Two JSON patches: one adds \<open>/data\<close>, one sets \<open>/metadata/deletionTimestamp\<close>.\<close>

definition add_data :: patch where
  "add_data = [JObj [(''op'', JStr ''add''), (''path'', JStr ''/data''),
                     (''value'', JObj [(''foo'', JStr ''bar'')])]]"

definition add_deletion :: patch where
  "add_deletion = [JObj [(''op'', JStr ''add''), (''path'', JStr ''/metadata/deletionTimestamp''),
                         (''value'', JStr ''anything'')]]"

text \<open>
  The library answers on these documents, as tables: what the decoders, the encoder, the
  patch and the merge-patch functions return for them. Anything outside the tables is
  an error.
\<close>

definition decode_table :: "(string \<times> object) list" where
  "decode_table =
     [(cm_text, cm_obj), (cm_status_text, cm_status_obj), (cm_data_text, cm_data_obj),
      (cm_bogus_text, cm_bogus_obj), (placeholder, placeholder_obj), (deleted_text, deleted_obj),
      (placeholder_data_text, placeholder_data_obj), (cm_null_text, cm_null_obj)]"

definition encode_table :: "(object \<times> string) list" where
  "encode_table = [(cm_obj, cm_text), (cm_data_obj, cm_data_text), (cm_status_obj, cm_status_text)]"

definition apply_table :: "((patch \<times> string) \<times> string) list" where
  "apply_table =
     [((add_data, cm_text), cm_data_text), ((add_deletion, placeholder), deleted_text),
      ((add_data, placeholder), placeholder_data_text)]"

definition three_way_table :: "((string \<times> string \<times> string) \<times> string) list" where
  \<open>three_way_table =
     [(([], cm_data_text, cm_data_text), ''{}''), (([], cm_data_text, cm_text), data_patch_text)]\<close>

definition merge_patch_table :: "((string \<times> string) \<times> string) list" where
  \<open>merge_patch_table =
     [((cm_data_text, ''{}''), cm_data_text), ((cm_text, data_patch_text), cm_data_text)]\<close>

definition lookup :: "('a \<times> 'b) list \<Rightarrow> 'a \<Rightarrow> error + 'b" where
  "lookup table k = (case map_of table k of None \<Rightarrow> Inl (Error ''unsupported'') | Some v \<Rightarrow> Inr v)"

definition table_json :: json_lib where
  "table_json =
     \<lparr>MarshalJSON = lookup encode_table,
      UnmarshalJSON = lookup decode_table,
      Unmarshal = lookup decode_table,
      PatchApply = (\<lambda>p doc. lookup apply_table (p, doc)),
      CreateThreeWayJSONMergePatch = (\<lambda>orig modified cur. lookup three_way_table (orig, modified, cur)),
      MergePatch = (\<lambda>doc p. lookup merge_patch_table (doc, p)),
      UnmarshalPatch = (\<lambda>doc. Inl (Error ''unsupported'')),
      DeepEqual = (\<lambda>a b. a = b)\<rparr>"

definition simple_parse :: parse_lib where
  "simple_parse =
     \<lparr>ParseDuration = (\<lambda>s. if s = ''10s'' then Some 10000000000 else None),
      Atoi = (\<lambda>s. if s = ''0'' then Some 0 else None),
      ParseCheck = (\<lambda>s. Inr \<lparr>checkName = [], checkExpr = s\<rparr>)\<rparr>"

definition slice_of :: "string \<Rightarrow> ResourceSlice" where
  "slice_of doc = \<lparr>sliceNamespace = ''default'', sliceName = ''slice-a'',
                    Resources = [\<lparr>manifest = doc, mDeleted = False\<rparr>]\<rparr>"

text \<open>A resource as \<open>NewResource\<close> builds it from a document with no annotations.\<close>

definition resource_of :: "object \<Rightarrow> patch option \<Rightarrow> Resource" where
  "resource_of obj p =
     \<lparr>Ref = \<lparr>Name = GetName obj, Namespace = GetNamespace obj, Group = [], Kind = GetKind obj\<rparr>,
      ManifestDeleted = False,
      ManifestRef = \<lparr>SliceNamespace = ''default'', SliceName = ''slice-a'', Index = 0\<rparr>,
      ManifestHash = [],
      ReconcileInterval = None,
      GVK = GroupVersionKind_of obj,
      ReadinessChecks = [],
      Patch = p,
      DisableUpdates = False,
      ReadinessGroup = 0,
      Labels = None,
      DefinedGroupKind = None,
      val = obj\<rparr>"

definition live_composition :: Composition where
  "live_composition =
     \<lparr>compNamespace = ''default'', compName = ''comp'', Generation = 1, DeletionTimestamp = None,
      Annotations = None, SynthesizerName = ''syn'', PreviousState = None, CurrentState = None,
      CurrentSynthesis = None, PendingResynthesis = None\<rparr>"

definition plain_api :: api_v1 where
  "plain_api = \<lparr>ShouldOrphanResources = (\<lambda>c. False), NotEligibleForResynthesis = (\<lambda>c syn. False)\<rparr>"

subsection \<open>A small structured-merge library\<close>

text \<open>
  Objects are merged field by field, anything that is not an object is a leaf; a field
  path is the list of field names down to a leaf. Every value validates.
\<close>

fun leaf_paths :: "json \<Rightarrow> string list list" where
  "leaf_paths (JObj m) = concat (map (\<lambda>(k, v). map ((#) k) (leaf_paths v)) m)"
| "leaf_paths v = [[]]"

fun overlay :: "json \<Rightarrow> json \<Rightarrow> json" where
  "overlay (JObj a) (JObj b) =
     JObj (map (\<lambda>(k, v). (k, case map_of b k of None \<Rightarrow> v | Some w \<Rightarrow> overlay v w)) a
           @ filter (\<lambda>(k, w). map_of a k = None) b)"
| "overlay v w = w"

fun remove_paths :: "string list list \<Rightarrow> json \<Rightarrow> json" where
  "remove_paths ps (JObj m) =
     JObj (map (\<lambda>(k, v). (k, remove_paths (map tl (filter (\<lambda>p. p \<noteq> [] \<and> hd p = k) ps)) v))
            (filter (\<lambda>(k, v). [k] \<notin> set ps) m))"
| "remove_paths ps v = v"

definition leaf_at :: "json \<Rightarrow> string list \<Rightarrow> json option" where
  "leaf_at v p = (case NestedFieldNoCopy v p of Found w \<Rightarrow> Some w | _ \<Rightarrow> None)"

definition fields_of :: "('sch, 'tr) TypedValue \<Rightarrow> string list set" where
  "fields_of tv = set (leaf_paths (tvValue tv))"

definition field_smd :: "(unit, string, string list) smd_lib" where
  "field_smd =
     \<lparr>Validate = (\<lambda>tv. None),
      tvMerge = (\<lambda>lhs rhs. Inr (lhs\<lparr>tvValue := overlay (tvValue lhs) (tvValue rhs)\<rparr>)),
      tvCompare = (\<lambda>lhs rhs. Inr
         \<lparr>Removed = set (filter (\<lambda>p. p \<notin> set (leaf_paths (tvValue rhs))) (leaf_paths (tvValue lhs))),
          Modified = set (filter (\<lambda>p. p \<in> set (leaf_paths (tvValue rhs))
                                       \<and> leaf_at (tvValue lhs) p \<noteq> leaf_at (tvValue rhs) p)
                                 (leaf_paths (tvValue lhs))),
          Added = set (filter (\<lambda>p. p \<notin> set (leaf_paths (tvValue lhs))) (leaf_paths (tvValue rhs)))\<rparr>),
      RemoveItems = (\<lambda>tv ps. tv\<lparr>tvValue := remove_paths
                                  (filter (\<lambda>p. p \<in> ps) (leaf_paths (tvValue tv))) (tvValue tv)\<rparr>)\<rparr>"

text \<open>Two schema getters: one knows every type, one fails.\<close>

definition known_schema :: "(unit, string) SchemaGetter" where
  "known_schema gvk = Inr (Some (gvkKind gvk), ())"

definition no_schema :: "(unit, string) SchemaGetter" where
  "no_schema gvk = Inr (None, ())"

definition failing_schema :: "(unit, string) SchemaGetter" where
  "failing_schema gvk = Inl (Error ''connection refused'')"

text \<open>
  Three deployments for the retraction of a field: the previous synthesis set
  \<open>spec.a\<close>, the new one sets \<open>spec.b\<close> only, the live object has \<open>spec.a\<close> and a field
  \<open>spec.foreign\<close> that another writer owns.
\<close>

definition syn1_obj :: object where
  "syn1_obj = [(''apiVersion'', JStr ''apps/v1''), (''kind'', JStr ''Deployment''),
               (''metadata'', JObj [(''name'', JStr ''foo'')]),
               (''spec'', JObj [(''a'', JNum 1)])]"

definition syn2_obj :: object where
  "syn2_obj = [(''apiVersion'', JStr ''apps/v1''), (''kind'', JStr ''Deployment''),
               (''metadata'', JObj [(''name'', JStr ''foo'')]),
               (''spec'', JObj [(''b'', JNum 2)])]"

definition live_obj :: object where
  "live_obj = [(''apiVersion'', JStr ''apps/v1''), (''kind'', JStr ''Deployment''),
               (''metadata'', JObj [(''name'', JStr ''foo'')]),
               (''spec'', JObj [(''a'', JNum 1), (''foreign'', JBool True)])]"

definition converged_obj :: object where
  "converged_obj = [(''apiVersion'', JStr ''apps/v1''), (''kind'', JStr ''Deployment''),
                    (''metadata'', JObj [(''name'', JStr ''foo'')]),
                    (''spec'', JObj [(''foreign'', JBool True), (''b'', JNum 2)])]"

subsection \<open>A store, a cache and the two controllers' surroundings\<close>

definition two_slices :: Synthesis where
  "two_slices = \<lparr>UUID = ''uuid-1'', ObservedCompositionGeneration = 1,
                  ResourceSliceCount = Some 2,
                  ResourceSlices = [Some ''slice-a'', Some ''slice-b'']\<rparr>"

definition synthesized_composition :: Composition where
  "synthesized_composition =
     live_composition\<lparr>CurrentState := Some two_slices, CurrentSynthesis := Some two_slices\<rparr>"

definition named_slice :: "string \<Rightarrow> ResourceSlice" where
  "named_slice n = \<lparr>sliceNamespace = ''default'', sliceName = n,
                     Resources = [\<lparr>manifest = cm_text, mDeleted = False\<rparr>]\<rparr>"

text \<open>
  A cache that records which syntheses it holds and emits one work item per manifest,
  over a store whose slice listing is given.
\<close>

definition listing_env ::
  "ResourceSlice list \<Rightarrow> ((NamespacedName \<times> string) list, string \<times> nat) recon_env" where
  "listing_env slices =
     \<lparr>clientGet = (\<lambda>nsn. if nsn = (''default'', ''comp'') then Inr synthesized_composition
                          else Inl (NotFound ''composition not found'')),
      clientList = (\<lambda>ns key. Inr slices),
      HasSynthesis = (\<lambda>held nsn syn. (nsn, UUID syn) \<in> set held),
      Fill = (\<lambda>held nsn syn sls.
                (Inr (concat (map (\<lambda>sl. map (\<lambda>i. (sliceName sl, i)) [0..<length (Resources sl)]) sls)),
                 (nsn, UUID syn) # held)),
      Purge = (\<lambda>held nsn cp.
                 case cp of
                   None \<Rightarrow> filter (\<lambda>entry. fst entry \<noteq> nsn) held
                 | Some cp' \<Rightarrow>
                     filter (\<lambda>entry. fst entry = nsn \<and>
                                (map_option UUID (PreviousState cp') = Some (snd entry)
                                 \<or> map_option UUID (CurrentState cp') = Some (snd entry))
                              \<or> fst entry \<noteq> nsn) held)\<rparr>"

definition fresh :: "((NamespacedName \<times> string) list, string \<times> nat) reconstituter" where
  "fresh = \<lparr>cache = [], queues = [[]], started = False\<rparr>"

text \<open>A store that holds the slices named, and accepts every status update.\<close>

definition store_env :: "string list \<Rightarrow> slice_env" where
  "store_env existing =
     \<lparr>getComposition = (\<lambda>nsn. if nsn = (''default'', ''comp'') then Inr synthesized_composition
                               else Inl (NotFound ''composition not found'')),
      getSynthesizer = (\<lambda>n. if n = ''syn'' then Inr \<lparr>synName = ''syn'', synGeneration = 1\<rparr>
                             else Inl (NotFound ''synthesizer not found'')),
      getSlice = (\<lambda>nsn. if fst nsn = ''default'' \<and> snd nsn \<in> set existing
                         then Inr (named_slice (snd nsn))
                         else Inl (NotFound ''resourceslice not found'')),
      statusUpdate = (\<lambda>c. None),
      now = 42\<rparr>"

text \<open>A store that holds no slice and whose lookup of \<open>slice-a\<close> times out.\<close>

definition timeout_env :: slice_env where
  "timeout_env =
     (store_env [])\<lparr>getSlice := (\<lambda>nsn. if snd nsn = ''slice-a'' then Inl (Error ''timeout'')
                                       else Inl (NotFound ''resourceslice not found''))\<rparr>"

definition never_eligible :: api_v1 where
  "never_eligible = \<lparr>ShouldOrphanResources = (\<lambda>c. False), NotEligibleForResynthesis = (\<lambda>c syn. True)\<rparr>"

text \<open>The reconstituter after one queue was registered and both slices were cached.\<close>

definition filled :: "((NamespacedName \<times> string) list, string \<times> nat) reconstituter" where
  "filled = \<lparr>cache = [((''default'', ''comp''), ''uuid-1'')],
             queues = [[(''slice-a'', 0), (''slice-b'', 0)]],
             started = True\<rparr>"

section \<open>Properties\<close>

subsection \<open>Evaluation of the table-driven library\<close>

lemma lookup_encode [simp]:
  "lookup encode_table cm_obj = Inr cm_text"
  "lookup encode_table cm_data_obj = Inr cm_data_text"
  by (simp_all add: lookup_def encode_table_def cm_obj_def cm_data_obj_def)

lemma lookup_decode [simp]:
  "lookup decode_table cm_text = Inr cm_obj"
  "lookup decode_table cm_status_text = Inr cm_status_obj"
  "lookup decode_table cm_data_text = Inr cm_data_obj"
  "lookup decode_table cm_bogus_text = Inr cm_bogus_obj"
  "lookup decode_table deleted_text = Inr deleted_obj"
  "lookup decode_table placeholder_data_text = Inr placeholder_data_obj"
  "lookup decode_table cm_null_text = Inr cm_null_obj"
  by (simp_all add: lookup_def decode_table_def cm_text_def cm_status_text_def cm_data_text_def
      cm_bogus_text_def placeholder_def deleted_text_def placeholder_data_text_def cm_null_text_def)

lemma lookup_apply [simp]:
  "lookup apply_table (add_data, cm_text) = Inr cm_data_text"
  "lookup apply_table (add_deletion, placeholder) = Inr deleted_text"
  "lookup apply_table (add_data, placeholder) = Inr placeholder_data_text"
  by (simp_all add: lookup_def apply_table_def add_data_def add_deletion_def cm_text_def
      placeholder_def)

lemma lookup_three_way [simp]:
  "lookup three_way_table ([], cm_data_text, cm_data_text) = Inr ''{}''"
  "lookup three_way_table ([], cm_data_text, cm_text) = Inr data_patch_text"
  by (simp_all add: lookup_def three_way_table_def cm_text_def cm_data_text_def)

lemma lookup_merge_patch [simp]:
  "lookup merge_patch_table (cm_data_text, ''{}'') = Inr cm_data_text"
  "lookup merge_patch_table (cm_text, data_patch_text) = Inr cm_data_text"
  by (simp_all add: lookup_def merge_patch_table_def cm_text_def cm_data_text_def data_patch_text_def)

subsection \<open>Patches\<close>

lemma NestedString_nonempty:
  "NestedString obj p \<noteq> [] \<longleftrightarrow> (\<exists>s. NestedFieldNoCopy (JObj obj) p = Found (JStr s) \<and> s \<noteq> [])"
  by (auto simp: NestedString_def split: nested.splits json.splits)

text \<open>
  C10. \<open>NeedsToBePatched\<close> returns a boolean on every input and has no error result. It is
  true exactly when the resource carries a patch, the live object is not nil, the live
  object marshals, the patch applies to it, the result parses, and the parsed object is
  not semantically equal to the live one; so it is false when there is no patch, when
  the live object is nil, and when any of the three steps fails.
\<close>

theorem NeedsToBePatched_iff:
  "NeedsToBePatched L r current \<longleftrightarrow>
     (\<exists>p cur curjson patchedjson patched.
        Patch r = Some p \<and> current = Some cur \<and>
        MarshalJSON L cur = Inr curjson \<and>
        PatchApply L p curjson = Inr patchedjson \<and>
        UnmarshalJSON L patchedjson = Inr patched \<and>
        \<not> DeepEqual L cur patched)"
  by (auto simp: NeedsToBePatched_def split: option.splits sum.splits)

theorem NeedsToBePatched_witness:
  "NeedsToBePatched table_json (resource_of cm_obj (Some add_data)) (Some cm_obj)
   \<and> \<not> NeedsToBePatched table_json (resource_of cm_obj None) (Some cm_obj)
   \<and> \<not> NeedsToBePatched table_json (resource_of cm_obj (Some add_data)) None"
proof -
  have "cm_obj \<noteq> cm_data_obj"
    by (simp add: cm_obj_def cm_data_obj_def)
  then show ?thesis
    using NeedsToBePatched_iff [of table_json "resource_of cm_obj (Some add_data)" "Some cm_obj"]
      NeedsToBePatched_iff [of table_json "resource_of cm_obj None" "Some cm_obj"]
      NeedsToBePatched_iff [of table_json "resource_of cm_obj (Some add_data)" None]
    by (simp add: table_json_def resource_of_def)
qed

text \<open>
  C4. \<open>Deleted\<close> holds exactly when the composition has a deletion timestamp and does not
  orphan its resources, or the manifest's \<open>Deleted\<close> flag is set, or the resource carries
  a patch which applies to the placeholder object and leaves a non-empty string at
  \<open>metadata.deletionTimestamp\<close> of the result.
\<close>

theorem Deleted_iff:
  "Deleted A L r c \<longleftrightarrow>
     (DeletionTimestamp c \<noteq> None \<and> \<not> ShouldOrphanResources A c)
     \<or> ManifestDeleted r
     \<or> (\<exists>p patchedjson patched s.
           Patch r = Some p \<and>
           PatchApply L p placeholder = Inr patchedjson \<and>
           Unmarshal L patchedjson = Inr patched \<and>
           NestedFieldNoCopy (JObj patched) [''metadata'', ''deletionTimestamp''] = Found (JStr s) \<and>
           s \<noteq> [])"
  by (auto simp: Deleted_def patchSetsDeletionTimestamp_def NestedString_nonempty
           split: option.splits sum.splits)

theorem Deleted_witness:
  "Deleted plain_api table_json (resource_of cm_obj (Some add_deletion)) live_composition
   \<and> \<not> Deleted plain_api table_json (resource_of cm_obj (Some add_data)) live_composition
   \<and> Deleted plain_api table_json (resource_of cm_obj None)
        (live_composition\<lparr>DeletionTimestamp := Some 5\<rparr>)"
proof -
  have a: "NestedFieldNoCopy (JObj deleted_obj) [''metadata'', ''deletionTimestamp'']
             = Found (JStr ''anything'')"
    by (simp add: deleted_obj_def)
  have b: "NestedFieldNoCopy (JObj placeholder_data_obj) [''metadata'', ''deletionTimestamp'']
             = Missing"
    by (simp add: placeholder_data_obj_def)
  show ?thesis
    using a b
      Deleted_iff [of plain_api table_json "resource_of cm_obj (Some add_deletion)" live_composition]
      Deleted_iff [of plain_api table_json "resource_of cm_obj (Some add_data)" live_composition]
      Deleted_iff [of plain_api table_json "resource_of cm_obj None"
        "live_composition\<lparr>DeletionTimestamp := Some 5\<rparr>"]
    by (simp add: table_json_def resource_of_def plain_api_def live_composition_def)
qed

subsection \<open>The reconstituter\<close>

lemma populateCache_started [simp]: "started (snd (populateCache E r c synthesis)) = started r"
  by (auto simp: populateCache_def Let_def split: option.splits sum.splits prod.splits)

lemma Reconcile_started [simp]: "started (snd (Reconcile E r req))"
proof -
  have p: "\<And>r c s x r'. populateCache E r c s = (x, r') \<Longrightarrow> started r' = started r"
    by (metis populateCache_started snd_conv)
  show ?thesis
    by (auto simp: Reconcile_def Let_def dest!: p split: sum.splits prod.splits)
qed

lemma run_started: "run E r calls = Inr r' \<Longrightarrow> started r \<Longrightarrow> started r'"
proof (induction calls arbitrary: r)
  case Nil
  then show ?case by simp
next
  case (Cons a calls)
  then show ?case
    by (cases a) (auto simp: AddQueue_def split: sum.splits if_splits)
qed

lemma run_append:
  "run E r (xs @ ys) = (case run E r xs of Inl e \<Rightarrow> Inl e | Inr r1 \<Rightarrow> run E r1 ys)"
proof (induction xs arbitrary: r)
  case Nil
  then show ?case by simp
next
  case (Cons a xs)
  then show ?case by (cases a) (auto split: sum.splits)
qed

lemma stale_example:
  "populateCache (listing_env [named_slice ''slice-a'']) fresh synthesized_composition (Some two_slices)
     = (Inr (), fresh)"
  by (simp add: populateCache_def Let_def listing_env_def two_slices_def fresh_def)

lemma filled_example:
  "populateCache (listing_env [named_slice ''slice-a'', named_slice ''slice-b''])
       (fresh\<lparr>started := True\<rparr>) synthesized_composition (Some two_slices)
     = (Inr (), filled)"
  by (simp add: populateCache_def Let_def listing_env_def two_slices_def fresh_def named_slice_def
      synthesized_composition_def live_composition_def filled_def)

lemma run_example:
  "run (listing_env [named_slice ''slice-a'', named_slice ''slice-b''])
     \<lparr>cache = [], queues = [], started = False\<rparr>
     ([CallAddQueue []] @ CallReconcile (''default'', ''comp'') # []) = Inr filled"
  by (simp add: AddQueue_def Reconcile_def populateCache_def Let_def listing_env_def
      synthesized_composition_def live_composition_def two_slices_def named_slice_def filled_def)

text \<open>
  C7. When the number of slices listed for a synthesis differs from its recorded
  \<open>ResourceSliceCount\<close>, \<open>populateCache\<close> returns success and leaves the reconstituter as
  it was: cache and queues unchanged. And whenever a call of \<open>populateCache\<close> changes the
  queues, the listing returned exactly the recorded number of slices and \<open>Fill\<close>, which
  parses every slice of the synthesis, returned the work items without an error; those
  items are what every queue has received.
\<close>

theorem populateCache_stale:
  "(ResourceSliceCount syn = Some count \<and>
    clientList E (compNamespace c) (compName c, ObservedCompositionGeneration syn) = Inr slices \<and>
    int (length slices) \<noteq> count
      \<longrightarrow> populateCache E r c (Some syn) = (Inr (), r))
   \<and> (populateCache E r c synthesis = (res, r') \<and> queues r' \<noteq> queues r
      \<longrightarrow> (\<exists>syn' listed reqs.
             synthesis = Some syn' \<and>
             clientList E (compNamespace c) (compName c, ObservedCompositionGeneration syn') = Inr listed \<and>
             ResourceSliceCount syn' = Some (int (length listed)) \<and>
             Fill E (cache r) (compNamespace c, compName c) syn' listed = (Inr reqs, cache r') \<and>
             queues r' = map (\<lambda>queue. queue @ reqs) (queues r) \<and>
             res = Inr ()))"
proof (intro conjI impI)
  assume "ResourceSliceCount syn = Some count \<and>
    clientList E (compNamespace c) (compName c, ObservedCompositionGeneration syn) = Inr slices \<and>
    int (length slices) \<noteq> count"
  then show "populateCache E r c (Some syn) = (Inr (), r)"
    by (simp add: populateCache_def Let_def)
next
  assume "populateCache E r c synthesis = (res, r') \<and> queues r' \<noteq> queues r"
  then show "\<exists>syn' listed reqs.
             synthesis = Some syn' \<and>
             clientList E (compNamespace c) (compName c, ObservedCompositionGeneration syn') = Inr listed \<and>
             ResourceSliceCount syn' = Some (int (length listed)) \<and>
             Fill E (cache r) (compNamespace c, compName c) syn' listed = (Inr reqs, cache r') \<and>
             queues r' = map (\<lambda>queue. queue @ reqs) (queues r) \<and>
             res = Inr ()"
    by (auto simp: populateCache_def Let_def split: option.splits sum.splits prod.splits if_splits)
qed

theorem populateCache_stale_witness:
  "populateCache (listing_env [named_slice ''slice-a'']) fresh synthesized_composition (Some two_slices)
     = (Inr (), fresh)
   \<and> populateCache (listing_env [named_slice ''slice-a'', named_slice ''slice-b''])
       (fresh\<lparr>started := True\<rparr>) synthesized_composition (Some two_slices) = (Inr (), filled)
   \<and> Fill (listing_env [named_slice ''slice-a'', named_slice ''slice-b'']) []
       (''default'', ''comp'') two_slices [named_slice ''slice-a'', named_slice ''slice-b'']
       = (Inr [(''slice-a'', 0), (''slice-b'', 0)], cache filled)"
proof -
  let ?E1 = "listing_env [named_slice ''slice-a'']"
  let ?E2 = "listing_env [named_slice ''slice-a'', named_slice ''slice-b'']"
  let ?c = synthesized_composition
  have h1: "ResourceSliceCount two_slices = Some 2 \<and>
    clientList ?E1 (compNamespace ?c) (compName ?c, ObservedCompositionGeneration two_slices)
      = Inr [named_slice ''slice-a''] \<and>
    int (length [named_slice ''slice-a'']) \<noteq> 2"
    by (simp add: two_slices_def listing_env_def)
  have a: "populateCache ?E1 fresh ?c (Some two_slices) = (Inr (), fresh)"
    by (rule populateCache_stale [THEN conjunct1, THEN mp]) (rule h1)
  have h2: "populateCache ?E2 (fresh\<lparr>started := True\<rparr>) ?c (Some two_slices) = (Inr (), filled)
            \<and> queues filled \<noteq> queues (fresh\<lparr>started := True\<rparr>)"
    using filled_example by (simp add: fresh_def filled_def)
  have "\<exists>syn' listed reqs.
          Some two_slices = Some syn' \<and>
          clientList ?E2 (compNamespace ?c) (compName ?c, ObservedCompositionGeneration syn') = Inr listed \<and>
          ResourceSliceCount syn' = Some (int (length listed)) \<and>
          Fill ?E2 (cache (fresh\<lparr>started := True\<rparr>)) (compNamespace ?c, compName ?c) syn' listed
            = (Inr reqs, cache filled) \<and>
          queues filled = map (\<lambda>queue. queue @ reqs) (queues (fresh\<lparr>started := True\<rparr>)) \<and>
          (Inr () :: error + unit) = Inr ()"
    by (rule populateCache_stale [THEN conjunct2, THEN mp]) (rule h2)
  then obtain listed reqs where
    l: "clientList ?E2 (compNamespace ?c) (compName ?c, ObservedCompositionGeneration two_slices)
          = Inr listed"
    and f: "Fill ?E2 (cache (fresh\<lparr>started := True\<rparr>)) (compNamespace ?c, compName ?c) two_slices listed
          = (Inr reqs, cache filled)"
    and q: "queues filled = map (\<lambda>queue. queue @ reqs) (queues (fresh\<lparr>started := True\<rparr>))"
    by auto
  from l have listed: "listed = [named_slice ''slice-a'', named_slice ''slice-b'']"
    by (simp add: listing_env_def)
  from q have reqs: "reqs = [(''slice-a'', 0), (''slice-b'', 0)]"
    by (simp add: filled_def fresh_def)
  have n: "(compNamespace ?c, compName ?c) = (''default'', ''comp'')"
    by (simp add: synthesized_composition_def live_composition_def)
  from f listed reqs n have
    "Fill ?E2 [] (''default'', ''comp'') two_slices [named_slice ''slice-a'', named_slice ''slice-b'']
       = (Inr [(''slice-a'', 0), (''slice-b'', 0)], cache filled)"
    by (simp add: fresh_def)
  with a h2 show ?thesis by simp
qed

text \<open>
  C9. A queue is registered only while no \<open>Reconcile\<close> has run. In any sequence of calls
  that contains a \<open>Reconcile\<close> and has not panicked, the reconstituter is in a state in
  which \<open>AddQueue\<close> panics and so adds nothing; in particular right after a \<open>Reconcile\<close>,
  whatever that pass returned. Before the first pass (\<open>started\<close> unset) the queue is
  appended.
\<close>

theorem AddQueue_after_Reconcile:
  "(run E r (before @ CallReconcile req # between) = Inr r' \<longrightarrow>
      AddQueue r' queue = Inl (Panic ''AddQueue must be called before any resources are reconciled''))
   \<and> AddQueue (snd (Reconcile E r req)) queue
        = Inl (Panic ''AddQueue must be called before any resources are reconciled'')
   \<and> (\<not> started r \<longrightarrow> AddQueue r queue = Inr (r\<lparr>queues := queues r @ [queue]\<rparr>))"
proof (intro conjI impI)
  assume a: "run E r (before @ CallReconcile req # between) = Inr r'"
  then obtain r1 where r1: "run E r before = Inr r1"
    and rest: "run E (snd (Reconcile E r1 req)) between = Inr r'"
    by (auto simp: run_append split: sum.splits)
  have "started r'"
    using run_started [OF rest] by simp
  then show "AddQueue r' queue = Inl (Panic ''AddQueue must be called before any resources are reconciled'')"
    by (simp add: AddQueue_def)
next
  show "AddQueue (snd (Reconcile E r req)) queue
        = Inl (Panic ''AddQueue must be called before any resources are reconciled'')"
    by (simp add: AddQueue_def)
next
  assume "\<not> started r"
  then show "AddQueue r queue = Inr (r\<lparr>queues := queues r @ [queue]\<rparr>)"
    by (simp add: AddQueue_def)
qed

theorem AddQueue_after_Reconcile_witness:
  "run (listing_env [named_slice ''slice-a'', named_slice ''slice-b''])
     \<lparr>cache = [], queues = [], started = False\<rparr>
     ([CallAddQueue []] @ CallReconcile (''default'', ''comp'') # []) = Inr filled
   \<and> AddQueue filled [] = Inl (Panic ''AddQueue must be called before any resources are reconciled'')
   \<and> AddQueue fresh [] = Inr (fresh\<lparr>queues := [[], []]\<rparr>)"
proof -
  let ?E = "listing_env [named_slice ''slice-a'', named_slice ''slice-b'']"
  note t = AddQueue_after_Reconcile [of ?E "\<lparr>cache = [], queues = [], started = False\<rparr>"
      "[CallAddQueue []]" "(''default'', ''comp'')" "[]" filled "[]"]
  have a: "AddQueue filled [] = Inl (Panic ''AddQueue must be called before any resources are reconciled'')"
    by (rule t [THEN conjunct1, THEN mp]) (rule run_example)
  have f: "\<not> started fresh"
    by (simp add: fresh_def)
  have b: "AddQueue fresh [] = Inr (fresh\<lparr>queues := queues fresh @ [[]]\<rparr>)"
    by (rule AddQueue_after_Reconcile [of ?E fresh "[]" "(''default'', ''comp'')" "[]" filled "[]",
          THEN conjunct2, THEN conjunct2, THEN mp]) (rule f)
  show ?thesis
    using run_example a b by (simp add: fresh_def)
qed

subsection \<open>The slice controller\<close>

lemma check_slices_writes:
  "length (snd (check_slices E c refs)) \<le> 1 \<and>
   (\<forall>w \<in> set (snd (check_slices E c refs)). w = c\<lparr>PendingResynthesis := Some (now E)\<rparr>)"
proof (induction refs)
  case Nil
  then show ?case by simp
next
  case (Cons ref refs)
  then show ?case
    by (cases ref) (auto simp: Let_def IgnoreNotFound_def split: sum.splits option.splits)
qed

lemma check_slices_found:
  assumes "\<forall>ref \<in> set pre. \<exists>name x. ref = Some name \<and> getSlice E (compNamespace c, name) = Inr x"
  shows "check_slices E c (pre @ rest) = check_slices E c rest"
  using assms by (induction pre) auto

lemma check_slices_missing:
  assumes "getSlice E (compNamespace c, name) = Inl e" and "IsNotFound e"
  shows "snd (check_slices E c (Some name # rest)) = [c\<lparr>PendingResynthesis := Some (now E)\<rparr>]"
  using assms by (simp add: Let_def split: option.splits)

text \<open>
  C8, as amended. Let the pass have read the composition and its synthesizer. If the
  composition is eligible and a slice referenced by its current synthesis is not found,
  and the lookups of the slices referenced before it succeeded, the pass issues exactly
  one status update: the composition with \<open>PendingResynthesis\<close> set to the current time.
  If the composition is not eligible the pass returns success and writes nothing. No
  pass issues more than one update, and every update it issues is that one.
\<close>

theorem sliceReconcile_writes:
  "(getComposition E req = Inr c \<and> getSynthesizer E (SynthesizerName c) = Inr syn \<and>
    \<not> NotEligibleForResynthesis A c syn \<and> CurrentSynthesis c = Some cs \<and>
    ResourceSlices cs = pre @ Some name # rest \<and>
    (\<forall>ref \<in> set pre. \<exists>n x. ref = Some n \<and> getSlice E (compNamespace c, n) = Inr x) \<and>
    getSlice E (compNamespace c, name) = Inl e \<and> IsNotFound e
     \<longrightarrow> snd (sliceReconcile A E req) = [c\<lparr>PendingResynthesis := Some (now E)\<rparr>])
   \<and> (getComposition E req = Inr c \<and> getSynthesizer E (SynthesizerName c) = Inr syn \<and>
      NotEligibleForResynthesis A c syn
     \<longrightarrow> sliceReconcile A E req = (Inr (), []))
   \<and> length (snd (sliceReconcile A E req)) \<le> 1
   \<and> (getComposition E req = Inr c
     \<longrightarrow> (\<forall>w \<in> set (snd (sliceReconcile A E req)). w = c\<lparr>PendingResynthesis := Some (now E)\<rparr>))"
proof (intro conjI impI)
  assume a: "getComposition E req = Inr c \<and> getSynthesizer E (SynthesizerName c) = Inr syn \<and>
    \<not> NotEligibleForResynthesis A c syn \<and> CurrentSynthesis c = Some cs \<and>
    ResourceSlices cs = pre @ Some name # rest \<and>
    (\<forall>ref \<in> set pre. \<exists>n x. ref = Some n \<and> getSlice E (compNamespace c, n) = Inr x) \<and>
    getSlice E (compNamespace c, name) = Inl e \<and> IsNotFound e"
  then have "check_slices E c (ResourceSlices cs) = check_slices E c (Some name # rest)"
    using check_slices_found [of pre E c "Some name # rest"] by simp
  moreover have "snd (check_slices E c (Some name # rest)) = [c\<lparr>PendingResynthesis := Some (now E)\<rparr>]"
    using a check_slices_missing by blast
  ultimately show "snd (sliceReconcile A E req) = [c\<lparr>PendingResynthesis := Some (now E)\<rparr>]"
    using a by (simp add: sliceReconcile_def)
next
  assume "getComposition E req = Inr c \<and> getSynthesizer E (SynthesizerName c) = Inr syn \<and>
      NotEligibleForResynthesis A c syn"
  then show "sliceReconcile A E req = (Inr (), [])"
    by (simp add: sliceReconcile_def)
next
  show "length (snd (sliceReconcile A E req)) \<le> 1"
    using check_slices_writes
    by (auto simp: sliceReconcile_def IgnoreNotFound_def split: sum.splits option.splits)
next
  assume "getComposition E req = Inr c"
  then show "\<forall>w \<in> set (snd (sliceReconcile A E req)). w = c\<lparr>PendingResynthesis := Some (now E)\<rparr>"
    using check_slices_writes [of E c]
    by (auto simp: sliceReconcile_def IgnoreNotFound_def split: sum.splits option.splits)
qed

theorem sliceReconcile_writes_witness:
  "snd (sliceReconcile plain_api (store_env [''slice-a'']) (''default'', ''comp''))
     = [synthesized_composition\<lparr>PendingResynthesis := Some 42\<rparr>]
   \<and> sliceReconcile never_eligible (store_env [''slice-a'']) (''default'', ''comp'') = (Inr (), [])
   \<and> snd (sliceReconcile plain_api (store_env [''slice-a'', ''slice-b'']) (''default'', ''comp'')) = []"
proof -
  let ?E = "store_env [''slice-a'']"
  let ?syn = "\<lparr>synName = ''syn'', synGeneration = 1\<rparr>"
  have h1: "getComposition ?E (''default'', ''comp'') = Inr synthesized_composition \<and>
    getSynthesizer ?E (SynthesizerName synthesized_composition) = Inr ?syn \<and>
    \<not> NotEligibleForResynthesis plain_api synthesized_composition ?syn \<and>
    CurrentSynthesis synthesized_composition = Some two_slices \<and>
    ResourceSlices two_slices = [Some ''slice-a''] @ Some ''slice-b'' # [] \<and>
    (\<forall>ref \<in> set [Some ''slice-a'']. \<exists>n x. ref = Some n \<and>
        getSlice ?E (compNamespace synthesized_composition, n) = Inr x) \<and>
    getSlice ?E (compNamespace synthesized_composition, ''slice-b'')
      = Inl (NotFound ''resourceslice not found'') \<and>
    IsNotFound (NotFound ''resourceslice not found'')"
    by (simp add: store_env_def synthesized_composition_def live_composition_def plain_api_def
        two_slices_def)
  have a: "snd (sliceReconcile plain_api ?E (''default'', ''comp''))
            = [synthesized_composition\<lparr>PendingResynthesis := Some (now ?E)\<rparr>]"
    by (rule sliceReconcile_writes [THEN conjunct1, THEN mp]) (rule h1)
  have h2: "getComposition ?E (''default'', ''comp'') = Inr synthesized_composition \<and>
    getSynthesizer ?E (SynthesizerName synthesized_composition) = Inr ?syn \<and>
    NotEligibleForResynthesis never_eligible synthesized_composition ?syn"
    by (simp add: store_env_def synthesized_composition_def live_composition_def never_eligible_def)
  have b: "sliceReconcile never_eligible ?E (''default'', ''comp'') = (Inr (), [])"
    by (rule sliceReconcile_writes [THEN conjunct2, THEN conjunct1, THEN mp]) (rule h2)
  have c: "snd (sliceReconcile plain_api (store_env [''slice-a'', ''slice-b'']) (''default'', ''comp'')) = []"
    by (simp add: sliceReconcile_def store_env_def synthesized_composition_def live_composition_def
        plain_api_def two_slices_def)
  from a b c show ?thesis
    by (simp add: store_env_def)
qed

lemma timeout_pass:
  "sliceReconcile plain_api timeout_env (''default'', ''comp'')
     = (Inl (Error ''getting resource slice: timeout''), [])"
  by (simp add: sliceReconcile_def timeout_env_def store_env_def synthesized_composition_def
      live_composition_def plain_api_def two_slices_def IgnoreNotFound_def)

text \<open>
  C8 as stated fails: the composition is eligible and \<open>slice-b\<close>, referenced by its
  current synthesis, is not found in the store, but the lookup of \<open>slice-a\<close>, referenced
  before it, fails with another error; the pass returns that error and issues no update.
\<close>

theorem sliceReconcile_no_write_counterexample:
  "getComposition timeout_env (''default'', ''comp'') = Inr synthesized_composition
   \<and> getSynthesizer timeout_env (SynthesizerName synthesized_composition)
       = Inr \<lparr>synName = ''syn'', synGeneration = 1\<rparr>
   \<and> \<not> NotEligibleForResynthesis plain_api synthesized_composition \<lparr>synName = ''syn'', synGeneration = 1\<rparr>
   \<and> CurrentSynthesis synthesized_composition = Some two_slices
   \<and> ResourceSlices two_slices = [Some ''slice-a'', Some ''slice-b'']
   \<and> getSlice timeout_env (compNamespace synthesized_composition, ''slice-b'')
       = Inl (NotFound ''resourceslice not found'')
   \<and> sliceReconcile plain_api timeout_env (''default'', ''comp'')
       = (Inl (Error ''getting resource slice: timeout''), [])"
  using timeout_pass
  by (simp add: timeout_env_def store_env_def synthesized_composition_def live_composition_def
      plain_api_def two_slices_def)

subsection \<open>The merge\<close>

text \<open>
  C1. On the schema-free path, when the three-way merge patch applied to the live object
  parses to an object semantically equal to the live object, \<open>Merge\<close> returns no object
  to write. On the schema-aware path the equality test is the library's comparison of
  the merged value with the live one: when it returns no error and reports no
  difference, \<open>Merge\<close> returns no object to write. These are the only ways in which
  \<open>Merge\<close> returns without an object and without an error.
\<close>

theorem Merge_skip:
  "(sg (GVK r) = Inr (None, schem) \<and> three_way_merge L r old cur = Inr patched \<and>
    DeepEqual L cur patched
      \<longrightarrow> Merge L S r old (Some cur) sg = Inr (None, False))
   \<and> (sg (GVK r) = Inr (Some tr, schem) \<and> structured_merge S r old cur schem tr = Inr merged \<and>
      tvCompare S merged (AsTypedUnvalidated (JObj cur) schem tr) = Inr c \<and> IsSame c
      \<longrightarrow> Merge L S r old (Some cur) sg = Inr (None, True))
   \<and> (Merge L S r old current sg = Inr (None, typed)
      \<longrightarrow> (\<exists>cur schem.
             current = Some cur \<and>
             ((sg (GVK r) = Inr (None, schem) \<and> \<not> typed \<and>
               (\<exists>patched. three_way_merge L r old cur = Inr patched \<and> DeepEqual L cur patched))
              \<or> (\<exists>tr merged c.
                    sg (GVK r) = Inr (Some tr, schem) \<and> typed \<and>
                    structured_merge S r old cur schem tr = Inr merged \<and>
                    tvCompare S merged (AsTypedUnvalidated (JObj cur) schem tr) = Inr c \<and>
                    IsSame c))))"
proof (intro conjI impI)
  assume "sg (GVK r) = Inr (None, schem) \<and> three_way_merge L r old cur = Inr patched \<and>
    DeepEqual L cur patched"
  then show "Merge L S r old (Some cur) sg = Inr (None, False)"
    by (simp add: Merge_def Merge_untyped_def)
next
  assume "sg (GVK r) = Inr (Some tr, schem) \<and> structured_merge S r old cur schem tr = Inr merged \<and>
      tvCompare S merged (AsTypedUnvalidated (JObj cur) schem tr) = Inr c \<and> IsSame c"
  then show "Merge L S r old (Some cur) sg = Inr (None, True)"
    by (simp add: Merge_def Merge_typed_def)
next
  assume "Merge L S r old current sg = Inr (None, typed)"
  then show "\<exists>cur schem.
             current = Some cur \<and>
             ((sg (GVK r) = Inr (None, schem) \<and> \<not> typed \<and>
               (\<exists>patched. three_way_merge L r old cur = Inr patched \<and> DeepEqual L cur patched))
              \<or> (\<exists>tr merged c.
                    sg (GVK r) = Inr (Some tr, schem) \<and> typed \<and>
                    structured_merge S r old cur schem tr = Inr merged \<and>
                    tvCompare S merged (AsTypedUnvalidated (JObj cur) schem tr) = Inr c \<and>
                    IsSame c))"
    by (auto simp: Merge_def Merge_untyped_def Merge_typed_def
        split: sum.splits option.splits if_splits json.splits prod.splits)
qed

lemma three_way_converged:
  "three_way_merge table_json (resource_of cm_data_obj None) None cm_data_obj = Inr cm_data_obj"
  by (simp add: three_way_merge_def table_json_def resource_of_def Unstructured_def)

lemma three_way_drifted:
  "three_way_merge table_json (resource_of cm_data_obj None) None cm_obj = Inr cm_data_obj"
  by (simp add: three_way_merge_def table_json_def resource_of_def Unstructured_def)

lemma GVK_syn2: "GVK (resource_of syn2_obj None) = \<lparr>gvkGroup = ''apps'', gvkVersion = ''v1'', gvkKind = ''Deployment''\<rparr>"
  by (simp add: resource_of_def syn2_obj_def GroupVersionKind_of_def GetAPIVersion_def GetKind_def
      NestedString_def ParseGroupVersion_def)

lemma structured_converged:
  "structured_merge field_smd (resource_of syn2_obj None) (Some (resource_of syn1_obj None))
     converged_obj () ''Deployment''
   = Inr \<lparr>tvValue = JObj converged_obj, tvTypeRef = ''Deployment'', tvSchema = ()\<rparr>"
  by (simp add: structured_merge_def field_smd_def resource_of_def AsTypedUnvalidated_def AsTyped_def
      syn1_obj_def syn2_obj_def converged_obj_def Let_def)

lemma structured_retract:
  "structured_merge field_smd (resource_of syn2_obj None) (Some (resource_of syn1_obj None))
     live_obj () ''Deployment''
   = Inr \<lparr>tvValue = JObj converged_obj, tvTypeRef = ''Deployment'', tvSchema = ()\<rparr>"
  by (simp add: structured_merge_def field_smd_def resource_of_def AsTypedUnvalidated_def AsTyped_def
      syn1_obj_def syn2_obj_def converged_obj_def live_obj_def Let_def)

lemma compare_converged:
  "tvCompare field_smd \<lparr>tvValue = JObj converged_obj, tvTypeRef = ''Deployment'', tvSchema = ()\<rparr>
     (AsTypedUnvalidated (JObj converged_obj) () ''Deployment'')
   = Inr \<lparr>Removed = {}, Modified = {}, Added = {}\<rparr>"
  by (auto simp: field_smd_def AsTypedUnvalidated_def converged_obj_def leaf_at_def)


lemma GVK_cm_data: "GVK (resource_of cm_data_obj None) = \<lparr>gvkGroup = [], gvkVersion = ''v1'', gvkKind = ''ConfigMap''\<rparr>"
  by (simp add: resource_of_def cm_data_obj_def GroupVersionKind_of_def GetAPIVersion_def GetKind_def
      NestedString_def ParseGroupVersion_def)

theorem Merge_skip_witness:
  "Merge table_json field_smd (resource_of cm_data_obj None) None (Some cm_data_obj) no_schema
     = Inr (None, False)
   \<and> Merge table_json field_smd (resource_of syn2_obj None) (Some (resource_of syn1_obj None))
       (Some converged_obj) known_schema = Inr (None, True)"
proof -
  have h1: "no_schema (GVK (resource_of cm_data_obj None)) = Inr (None, ()) \<and>
    three_way_merge table_json (resource_of cm_data_obj None) None cm_data_obj = Inr cm_data_obj \<and>
    DeepEqual table_json cm_data_obj cm_data_obj"
    using three_way_converged by (simp add: no_schema_def table_json_def)
  have a: "Merge table_json field_smd (resource_of cm_data_obj None) None (Some cm_data_obj) no_schema
     = Inr (None, False)"
    by (rule Merge_skip [THEN conjunct1, THEN mp]) (rule h1)
  have h2: "known_schema (GVK (resource_of syn2_obj None)) = Inr (Some ''Deployment'', ()) \<and>
    structured_merge field_smd (resource_of syn2_obj None) (Some (resource_of syn1_obj None))
      converged_obj () ''Deployment''
      = Inr \<lparr>tvValue = JObj converged_obj, tvTypeRef = ''Deployment'', tvSchema = ()\<rparr> \<and>
    tvCompare field_smd \<lparr>tvValue = JObj converged_obj, tvTypeRef = ''Deployment'', tvSchema = ()\<rparr>
      (AsTypedUnvalidated (JObj converged_obj) () ''Deployment'')
      = Inr \<lparr>Removed = {}, Modified = {}, Added = {}\<rparr> \<and>
    IsSame \<lparr>Removed = {}, Modified = {}, Added = ({} :: string list set)\<rparr>"
    using structured_converged compare_converged
    by (simp add: known_schema_def GVK_syn2 IsSame_def)
  have b: "Merge table_json field_smd (resource_of syn2_obj None) (Some (resource_of syn1_obj None))
       (Some converged_obj) known_schema = Inr (None, True)"
    by (rule Merge_skip [THEN conjunct2, THEN conjunct1, THEN mp]) (rule h2)
  from a b show ?thesis by simp
qed

text \<open>
  C2, as amended. When the schema resolver returns an error, \<open>Merge\<close> fails with that
  error wrapped as "looking up schema"; it does not fall back. The schema-free path is
  taken whenever the resolver succeeds with a nil type reference.
\<close>

theorem Merge_schema_lookup:
  "(sg (GVK r) = Inl e \<longrightarrow> Merge L S r old current sg = Inl (wrap ''looking up schema'' e))
   \<and> (sg (GVK r) = Inr (None, schem) \<longrightarrow> Merge L S r old current sg = Merge_untyped L r old current)"
  by (simp add: Merge_def)

theorem Merge_schema_lookup_witness:
  "Merge table_json field_smd (resource_of cm_data_obj None) None (Some cm_obj) failing_schema
     = Inl (Error ''looking up schema: connection refused'')
   \<and> Merge table_json field_smd (resource_of cm_data_obj None) None (Some cm_obj) no_schema
     = Inr (Some cm_data_obj, False)"
proof -
  have h1: "failing_schema (GVK (resource_of cm_data_obj None)) = Inl (Error ''connection refused'')"
    by (simp add: failing_schema_def)
  have a: "Merge table_json field_smd (resource_of cm_data_obj None) None (Some cm_obj) failing_schema
     = Inl (wrap ''looking up schema'' (Error ''connection refused''))"
    by (rule Merge_schema_lookup [THEN conjunct1, THEN mp]) (rule h1)
  have h2: "no_schema (GVK (resource_of cm_data_obj None)) = Inr (None, ())"
    by (simp add: no_schema_def)
  have b: "Merge table_json field_smd (resource_of cm_data_obj None) None (Some cm_obj) no_schema
     = Merge_untyped table_json (resource_of cm_data_obj None) None (Some cm_obj)"
    by (rule Merge_schema_lookup [THEN conjunct2, THEN mp]) (rule h2)
  have ne: "cm_obj \<noteq> cm_data_obj"
    by (simp add: cm_obj_def cm_data_obj_def)
  have c: "Merge_untyped table_json (resource_of cm_data_obj None) None (Some cm_obj)
            = Inr (Some cm_data_obj, False)"
    using three_way_drifted ne by (simp add: Merge_untyped_def table_json_def)
  from a b c show ?thesis by simp
qed

text \<open>
  C2 as stated fails: for a resolver whose lookup fails, \<open>Merge\<close> returns the lookup
  error, where the schema-free path on the same input returns the merged object.
\<close>

theorem Merge_no_fallback_counterexample:
  "failing_schema (GVK (resource_of cm_data_obj None)) = Inl (Error ''connection refused'')
   \<and> Merge table_json field_smd (resource_of cm_data_obj None) None (Some cm_obj) failing_schema
       = Inl (Error ''looking up schema: connection refused'')
   \<and> Merge_untyped table_json (resource_of cm_data_obj None) None (Some cm_obj)
       = Inr (Some cm_data_obj, False)"
proof -
  have ne: "cm_obj \<noteq> cm_data_obj"
    by (simp add: cm_obj_def cm_data_obj_def)
  have "Merge_untyped table_json (resource_of cm_data_obj None) None (Some cm_obj)
            = Inr (Some cm_data_obj, False)"
    using three_way_drifted ne by (simp add: Merge_untyped_def table_json_def)
  then show ?thesis
    by (simp add: Merge_def failing_schema_def)
qed

text \<open>
  C3. On the schema-aware path with an old resource, once the merge of new onto current,
  the validation of old and the comparison of old with new have succeeded, the merged
  value is the library's merge with exactly the paths removed that the comparison of old
  with new reports as removed. Whenever the library's comparison reports as removed the
  paths of old that new lacks, and its removal takes exactly the given paths out, the
  paths of the merged value are those of the merge of new onto current less the paths
  present in old and absent in new. The object \<open>Merge\<close> returns is that merged value.
\<close>

theorem structured_merge_prunes:
  "(tvMerge S (AsTypedUnvalidated (JObj cur) schem tr) (AsTypedUnvalidated (JObj (val r)) schem tr)
      = Inr merged \<and>
    AsTyped S (JObj (val ol)) schem tr = Inr typedOld \<and>
    tvCompare S typedOld (AsTypedUnvalidated (JObj (val r)) schem tr) = Inr toOld
     \<longrightarrow> structured_merge S r (Some ol) cur schem tr = Inr (RemoveItems S merged (Removed toOld)))
   \<and> (tvMerge S (AsTypedUnvalidated (JObj cur) schem tr) (AsTypedUnvalidated (JObj (val r)) schem tr)
        = Inr merged \<and>
      AsTyped S (JObj (val ol)) schem tr = Inr typedOld \<and>
      tvCompare S typedOld (AsTypedUnvalidated (JObj (val r)) schem tr) = Inr toOld \<and>
      Removed toOld = paths typedOld - paths (AsTypedUnvalidated (JObj (val r)) schem tr) \<and>
      paths (RemoveItems S merged (Removed toOld)) = paths merged - Removed toOld
     \<longrightarrow> (\<exists>pruned. structured_merge S r (Some ol) cur schem tr = Inr pruned \<and>
            paths pruned
              = paths merged - (paths typedOld - paths (AsTypedUnvalidated (JObj (val r)) schem tr))))
   \<and> (sg (GVK r) = Inr (Some tr, schem) \<and>
      structured_merge S r (Some ol) cur schem tr = Inr pruned \<and>
      Merge L S r (Some ol) (Some cur) sg = Inr (Some m, typed)
     \<longrightarrow> tvValue pruned = JObj m \<and> typed)"
proof (intro conjI impI)
  assume "tvMerge S (AsTypedUnvalidated (JObj cur) schem tr) (AsTypedUnvalidated (JObj (val r)) schem tr)
      = Inr merged \<and>
    AsTyped S (JObj (val ol)) schem tr = Inr typedOld \<and>
    tvCompare S typedOld (AsTypedUnvalidated (JObj (val r)) schem tr) = Inr toOld"
  then show "structured_merge S r (Some ol) cur schem tr = Inr (RemoveItems S merged (Removed toOld))"
    by (simp add: structured_merge_def Let_def)
next
  assume a: "tvMerge S (AsTypedUnvalidated (JObj cur) schem tr) (AsTypedUnvalidated (JObj (val r)) schem tr)
        = Inr merged \<and>
      AsTyped S (JObj (val ol)) schem tr = Inr typedOld \<and>
      tvCompare S typedOld (AsTypedUnvalidated (JObj (val r)) schem tr) = Inr toOld \<and>
      Removed toOld = paths typedOld - paths (AsTypedUnvalidated (JObj (val r)) schem tr) \<and>
      paths (RemoveItems S merged (Removed toOld)) = paths merged - Removed toOld"
  then have "structured_merge S r (Some ol) cur schem tr = Inr (RemoveItems S merged (Removed toOld))"
    by (simp add: structured_merge_def Let_def)
  moreover from a have "paths (RemoveItems S merged (Removed toOld))
      = paths merged - (paths typedOld - paths (AsTypedUnvalidated (JObj (val r)) schem tr))"
    by metis
  ultimately show "\<exists>pruned. structured_merge S r (Some ol) cur schem tr = Inr pruned \<and>
            paths pruned
              = paths merged - (paths typedOld - paths (AsTypedUnvalidated (JObj (val r)) schem tr))"
    by blast
next
  assume a: "sg (GVK r) = Inr (Some tr, schem) \<and>
      structured_merge S r (Some ol) cur schem tr = Inr pruned \<and>
      Merge L S r (Some ol) (Some cur) sg = Inr (Some m, typed)"
  then show "tvValue pruned = JObj m"
    by (auto simp: Merge_def Merge_typed_def split: if_splits json.splits)
  from a show typed
    by (auto simp: Merge_def Merge_typed_def split: if_splits json.splits)
qed


lemma merge_live:
  "tvMerge field_smd (AsTypedUnvalidated (JObj live_obj) () ''Deployment'')
     (AsTypedUnvalidated (JObj (val (resource_of syn2_obj None))) () ''Deployment'')
   = Inr \<lparr>tvValue = JObj [(''apiVersion'', JStr ''apps/v1''), (''kind'', JStr ''Deployment''),
               (''metadata'', JObj [(''name'', JStr ''foo'')]),
               (''spec'', JObj [(''a'', JNum 1), (''foreign'', JBool True), (''b'', JNum 2)])],
          tvTypeRef = ''Deployment'', tvSchema = ()\<rparr>"
  by (simp add: field_smd_def AsTypedUnvalidated_def resource_of_def live_obj_def syn2_obj_def)

lemma compare_old_new:
  "tvCompare field_smd \<lparr>tvValue = JObj syn1_obj, tvTypeRef = ''Deployment'', tvSchema = ()\<rparr>
     (AsTypedUnvalidated (JObj (val (resource_of syn2_obj None))) () ''Deployment'')
   = Inr \<lparr>Removed = {[''spec'', ''a'']}, Modified = {}, Added = {[''spec'', ''b'']}\<rparr>"
  by (auto simp: field_smd_def AsTypedUnvalidated_def resource_of_def syn1_obj_def syn2_obj_def
      leaf_at_def)

lemma Merge_retract:
  "Merge table_json field_smd (resource_of syn2_obj None) (Some (resource_of syn1_obj None))
     (Some live_obj) known_schema = Inr (Some converged_obj, True)"
proof -
  have "tvCompare field_smd \<lparr>tvValue = JObj converged_obj, tvTypeRef = ''Deployment'', tvSchema = ()\<rparr>
     (AsTypedUnvalidated (JObj live_obj) () ''Deployment'')
     = Inr \<lparr>Removed = {[''spec'', ''b'']}, Modified = {}, Added = {[''spec'', ''a'']}\<rparr>"
    by (auto simp: field_smd_def AsTypedUnvalidated_def converged_obj_def live_obj_def leaf_at_def)
  then show ?thesis
    using structured_retract
    by (simp add: Merge_def Merge_typed_def known_schema_def GVK_syn2 IsSame_def)
qed

theorem structured_merge_prunes_witness:
  "structured_merge field_smd (resource_of syn2_obj None) (Some (resource_of syn1_obj None))
     live_obj () ''Deployment''
     = Inr \<lparr>tvValue = JObj converged_obj, tvTypeRef = ''Deployment'', tvSchema = ()\<rparr>
   \<and> fields_of \<lparr>tvValue = JObj converged_obj, tvTypeRef = ''Deployment'', tvSchema = ()\<rparr>
       = {[''apiVersion''], [''kind''], [''metadata'', ''name''], [''spec'', ''foreign''],
          [''spec'', ''b'']}
   \<and> Merge table_json field_smd (resource_of syn2_obj None) (Some (resource_of syn1_obj None))
       (Some live_obj) known_schema = Inr (Some converged_obj, True)"
proof -
  let ?S = "field_smd"
  let ?r = "resource_of syn2_obj None"
  let ?ol = "resource_of syn1_obj None"
  let ?new = "AsTypedUnvalidated (JObj (val ?r)) () ''Deployment''"
  let ?old = "\<lparr>tvValue = JObj syn1_obj, tvTypeRef = ''Deployment'', tvSchema = ()\<rparr>"
  let ?merged = "\<lparr>tvValue = JObj [(''apiVersion'', JStr ''apps/v1''), (''kind'', JStr ''Deployment''),
               (''metadata'', JObj [(''name'', JStr ''foo'')]),
               (''spec'', JObj [(''a'', JNum 1), (''foreign'', JBool True), (''b'', JNum 2)])],
          tvTypeRef = ''Deployment'', tvSchema = ()\<rparr>"
  let ?toOld = "\<lparr>Removed = {[''spec'', ''a'']}, Modified = {}, Added = {[''spec'', ''b'']}\<rparr>"
  let ?pruned = "\<lparr>tvValue = JObj converged_obj, tvTypeRef = ''Deployment'', tvSchema = ()\<rparr>"
  have old: "AsTyped ?S (JObj (val ?ol)) () ''Deployment'' = Inr ?old"
    by (simp add: AsTyped_def field_smd_def resource_of_def)
  have f_old: "fields_of ?old = {[''apiVersion''], [''kind''], [''metadata'', ''name''], [''spec'', ''a'']}"
    by (simp add: fields_of_def syn1_obj_def)
  have f_new: "fields_of ?new = {[''apiVersion''], [''kind''], [''metadata'', ''name''], [''spec'', ''b'']}"
    by (simp add: fields_of_def AsTypedUnvalidated_def resource_of_def syn2_obj_def)
  have f_merged: "fields_of ?merged = {[''apiVersion''], [''kind''], [''metadata'', ''name''],
      [''spec'', ''a''], [''spec'', ''foreign''], [''spec'', ''b'']}"
    by (simp add: fields_of_def)
  have rm: "RemoveItems ?S ?merged {[''spec'', ''a'']} = ?pruned"
    by (simp add: field_smd_def converged_obj_def)
  have f_pruned: "fields_of ?pruned = {[''apiVersion''], [''kind''], [''metadata'', ''name''],
      [''spec'', ''foreign''], [''spec'', ''b'']}"
    by (simp add: fields_of_def converged_obj_def)
  have h: "tvMerge ?S (AsTypedUnvalidated (JObj live_obj) () ''Deployment'') ?new = Inr ?merged \<and>
      AsTyped ?S (JObj (val ?ol)) () ''Deployment'' = Inr ?old \<and>
      tvCompare ?S ?old ?new = Inr ?toOld \<and>
      Removed ?toOld = fields_of ?old - fields_of ?new \<and>
      fields_of (RemoveItems ?S ?merged (Removed ?toOld)) = fields_of ?merged - Removed ?toOld"
    using merge_live old compare_old_new
    by (auto simp: f_old f_new f_merged rm f_pruned)
  have "\<exists>pruned. structured_merge ?S ?r (Some ?ol) live_obj () ''Deployment'' = Inr pruned \<and>
          fields_of pruned = fields_of ?merged - (fields_of ?old - fields_of ?new)"
    by (rule structured_merge_prunes [where paths = fields_of, THEN conjunct2, THEN conjunct1, THEN mp])
      (rule h)
  then obtain pruned where p: "structured_merge ?S ?r (Some ?ol) live_obj () ''Deployment'' = Inr pruned"
    and fp: "fields_of pruned = fields_of ?merged - (fields_of ?old - fields_of ?new)"
    by blast
  from p structured_retract have "pruned = ?pruned" by simp
  with p fp have "structured_merge ?S ?r (Some ?ol) live_obj () ''Deployment'' = Inr ?pruned"
    and "fields_of ?pruned = fields_of ?merged - (fields_of ?old - fields_of ?new)"
    by simp_all
  then show ?thesis
    using Merge_retract by (auto simp: f_old f_new f_merged)
qed

subsection \<open>The parser\<close>

lemma hash_cm: "Sum64 (fnv64 cm_text) = [94, 39, 253, 53, 176, 43, 13, 228]"
  by code_simp

lemma hash_cm_status: "Sum64 (fnv64 cm_status_text) = [247, 147, 125, 150, 48, 127, 249, 156]"
  by code_simp

lemma hash_cm_bogus: "Sum64 (fnv64 cm_bogus_text) = [231, 243, 98, 90, 187, 74, 9, 152]"
  by code_simp

lemmas accessor_defs = GetName_def GetNamespace_def GetKind_def GetAPIVersion_def NestedString_def
  GroupVersionKind_of_def ParseGroupVersion_def GetLabels_def GetAnnotations_def NestedStringMap_def
  SetAnnotations_def SetLabels_def SetCreationTimestamp_zero_def pruneMetadata_def
  obj_delete_def obj_set_def patchGVK_def HasPrefix_def TrimPrefix_def
  reconcile_interval_def readiness_group_def reconcileIntervalKey_def readinessGroupKey_def

lemma NewResource_cm:
  "NewResource table_json simple_parse (slice_of cm_text) 0
     = Inr ((resource_of cm_obj None)\<lparr>ManifestHash := [94, 39, 253, 53, 176, 43, 13, 228]\<rparr>, [])"
  by (simp add: NewResource_def slice_of_def table_json_def simple_parse_def hash_cm resource_of_def
      cm_obj_def accessor_defs Let_def)

lemma NewResource_cm_status:
  "NewResource table_json simple_parse (slice_of cm_status_text) 0
     = Inr ((resource_of cm_obj None)\<lparr>ManifestHash := [247, 147, 125, 150, 48, 127, 249, 156]\<rparr>, [])"
  by (simp add: NewResource_def slice_of_def table_json_def simple_parse_def hash_cm_status resource_of_def
      cm_obj_def cm_status_obj_def accessor_defs Let_def)

lemma NewResource_cm_bogus:
  "NewResource table_json simple_parse (slice_of cm_bogus_text) 0
     = Inr ((resource_of cm_obj None)\<lparr>ManifestHash := [231, 243, 98, 90, 187, 74, 9, 152],
              ReconcileInterval := Some 0\<rparr>,
            [''invalid reconcile interval - ignoring''])"
  by (simp add: NewResource_def slice_of_def table_json_def simple_parse_def hash_cm_bogus resource_of_def
      cm_obj_def cm_bogus_obj_def accessor_defs Let_def)


lemma map_of_obj_delete: "map_of (obj_delete m k) k' = (if k' = k then None else map_of m k')"
  by (induction m) (auto simp: obj_delete_def)

lemma map_of_obj_set: "map_of (obj_set m k v) k' = (if k' = k then Some v else map_of m k')"
  by (simp add: obj_set_def update_conv')

lemma map_of_RemoveNestedField:
  "map_of (RemoveNestedField m [a, b]) k =
     (if k = a then (case map_of m a of Some (JObj m') \<Rightarrow> Some (JObj (obj_delete m' b)) | x \<Rightarrow> x)
      else map_of m k)"
  by (auto simp: map_of_obj_set split: option.splits json.splits)

lemma map_of_SetNestedField:
  "map_of (SetNestedField m v [a, b]) k =
     (if k = a then (case map_of m a of
                       Some (JObj m') \<Rightarrow> Some (JObj (obj_set m' b v))
                     | Some x \<Rightarrow> Some x
                     | None \<Rightarrow> Some (JObj (obj_set [] b v)))
      else map_of m k)"
  by (auto simp: map_of_obj_set split: option.splits json.splits)

lemma strip_guard:
  "(if parsed0 \<noteq> [] then SetCreationTimestamp_zero (obj_delete parsed0 ''status'') else parsed0)
     = SetCreationTimestamp_zero (obj_delete parsed0 ''status'')"
  by (simp add: SetCreationTimestamp_zero_def obj_delete_def)

lemma status_SetAnnotations [simp]:
  "map_of (SetAnnotations m x) ''status'' = map_of m ''status''"
  by (simp add: SetAnnotations_def map_of_RemoveNestedField map_of_SetNestedField
      del: RemoveNestedField.simps SetNestedField.simps split: option.splits)

lemma status_SetLabels [simp]:
  "map_of (SetLabels m x) ''status'' = map_of m ''status''"
  by (simp add: SetLabels_def map_of_RemoveNestedField map_of_SetNestedField
      del: RemoveNestedField.simps SetNestedField.simps split: option.splits)

lemma status_stripped [simp]:
  "map_of (SetCreationTimestamp_zero (obj_delete m ''status'')) ''status'' = None"
  by (simp add: SetCreationTimestamp_zero_def map_of_RemoveNestedField map_of_obj_delete
      del: RemoveNestedField.simps)

lemma nested2:
  "NestedFieldNoCopy (JObj m) [a, b] =
     (case map_of m a of
        None \<Rightarrow> Missing
      | Some (JObj m') \<Rightarrow> (case map_of m' b of None \<Rightarrow> Missing | Some v \<Rightarrow> Found v)
      | Some _ \<Rightarrow> NotAMap)"
  by (auto split: option.splits json.splits)

lemma no_ct_iff:
  "(\<forall>v. NestedFieldNoCopy (JObj m) [''metadata'', ''creationTimestamp''] \<noteq> Found v) \<longleftrightarrow>
     (\<forall>m'. map_of m ''metadata'' = Some (JObj m') \<longrightarrow> map_of m' ''creationTimestamp'' = None)"
  by (auto simp: nested2 simp del: NestedFieldNoCopy.simps split: option.splits json.splits)

lemma ct_stripped:
  "\<forall>v. NestedFieldNoCopy (JObj (SetCreationTimestamp_zero m)) [''metadata'', ''creationTimestamp''] \<noteq> Found v"
  unfolding no_ct_iff
  by (auto simp: SetCreationTimestamp_zero_def map_of_RemoveNestedField map_of_obj_delete
      simp del: RemoveNestedField.simps split: option.splits json.splits)

lemma ct_SetAnnotations:
  assumes "\<forall>v. NestedFieldNoCopy (JObj m) [''metadata'', ''creationTimestamp''] \<noteq> Found v"
  shows "\<forall>v. NestedFieldNoCopy (JObj (SetAnnotations m x)) [''metadata'', ''creationTimestamp''] \<noteq> Found v"
  using assms unfolding no_ct_iff
  by (auto simp: SetAnnotations_def map_of_RemoveNestedField map_of_SetNestedField map_of_obj_delete
      map_of_obj_set simp del: RemoveNestedField.simps SetNestedField.simps
      split: option.splits json.splits if_splits)

lemma ct_SetLabels:
  assumes "\<forall>v. NestedFieldNoCopy (JObj m) [''metadata'', ''creationTimestamp''] \<noteq> Found v"
  shows "\<forall>v. NestedFieldNoCopy (JObj (SetLabels m x)) [''metadata'', ''creationTimestamp''] \<noteq> Found v"
  using assms unfolding no_ct_iff
  by (auto simp: SetLabels_def map_of_RemoveNestedField map_of_SetNestedField map_of_obj_delete
      map_of_obj_set simp del: RemoveNestedField.simps SetNestedField.simps
      split: option.splits json.splits if_splits)

lemma NewResource_val:
  assumes "NewResource L P sl i = Inr (r, logs)"
  shows "\<exists>parsed0. UnmarshalJSON L (manifest (Resources sl ! i)) = Inr parsed0 \<and>
           i < length (Resources sl) \<and>
           ManifestHash r = Sum64 (fnv64 (manifest (Resources sl ! i))) \<and>
           val r = (let parsed = SetCreationTimestamp_zero (obj_delete parsed0 ''status'');
                        parsed' = SetAnnotations parsed (pruneMetadata (GetAnnotations parsed))
                    in SetLabels parsed' (pruneMetadata (GetLabels parsed')))"
  using assms
  by (auto simp: NewResource_def Let_def strip_guard split: if_splits sum.splits prod.splits)


lemma obj_delete_idem: "obj_delete (obj_delete m k) k = obj_delete m k"
  by (simp add: obj_delete_def)

lemma RemoveNestedField_idem:
  "RemoveNestedField (RemoveNestedField m [a, b]) [a, b] = RemoveNestedField m [a, b]"
proof (cases "map_of m a")
  case None
  then show ?thesis by simp
next
  case (Some v)
  show ?thesis
  proof (cases v)
    case (JObj m')
    let ?R = "obj_set m a (JObj (obj_delete m' b))"
    have r: "RemoveNestedField m [a, b] = ?R"
      using Some JObj by simp
    have "map_of ?R a = Some (JObj (obj_delete m' b))"
      by (simp add: map_of_obj_set)
    then have "RemoveNestedField ?R [a, b] = obj_set ?R a (JObj (obj_delete (obj_delete m' b) b))"
      by simp
    also have "\<dots> = ?R"
      by (simp add: obj_delete_idem obj_set_def)
    finally show ?thesis
      using r by simp
  qed (simp_all add: Some)
qed

lemma strip_of_drop:
  "RemoveNestedField (drop_status_and_zero_creationTimestamp obj) [''metadata'', ''creationTimestamp'']
     = SetCreationTimestamp_zero (obj_delete obj ''status'')"
  by (simp add: drop_status_and_zero_creationTimestamp_def SetCreationTimestamp_zero_def Let_def
      RemoveNestedField_idem del: RemoveNestedField.simps NestedFieldNoCopy.simps
      split: nested.splits json.splits)

lemma strip_eq_of_drop_eq:
  assumes "drop_status_and_zero_creationTimestamp o1 = drop_status_and_zero_creationTimestamp o2"
  shows "SetCreationTimestamp_zero (obj_delete o1 ''status'')
           = SetCreationTimestamp_zero (obj_delete o2 ''status'')"
  using assms strip_of_drop by metis

text \<open>
  C6, as amended. For every manifest that \<open>NewResource\<close> accepts, the interned object has
  no \<open>status\<close> and no zero-valued \<open>metadata.creationTimestamp\<close>, and \<open>ManifestHash\<close> is
  the FNV-64 digest of the raw manifest bytes. Two manifests whose decoded objects differ
  only in \<open>status\<close> or a zero \<open>creationTimestamp\<close> (and carry the same patch envelope)
  produce resources with equal interned objects: the second resource is the first one
  with the fields copied from the manifest's place in its slice and \<open>ManifestHash\<close>
  replaced by its own, and the log lines are the same.
\<close>

theorem NewResource_strips:
  "(NewResource L P sl i = Inr (r, logs) \<longrightarrow>
      ManifestHash r = Sum64 (fnv64 (manifest (Resources sl ! i))) \<and>
      map_of (val r) ''status'' = None \<and>
      NestedFieldNoCopy (JObj (val r)) [''metadata'', ''creationTimestamp''] \<noteq> Found JNull)
   \<and> (i < length (Resources sl) \<and> i' < length (Resources sl') \<and>
      UnmarshalJSON L (manifest (Resources sl ! i)) = Inr o1 \<and>
      UnmarshalJSON L (manifest (Resources sl' ! i')) = Inr o2 \<and>
      drop_status_and_zero_creationTimestamp o1 = drop_status_and_zero_creationTimestamp o2 \<and>
      UnmarshalPatch L (manifest (Resources sl ! i)) = UnmarshalPatch L (manifest (Resources sl' ! i')) \<and>
      NewResource L P sl i = Inr (r, logs)
     \<longrightarrow> NewResource L P sl' i'
           = Inr (r\<lparr>ManifestDeleted := mDeleted (Resources sl' ! i'),
                    ManifestRef := \<lparr>SliceNamespace = sliceNamespace sl', SliceName = sliceName sl',
                                     Index = i'\<rparr>,
                    ManifestHash := Sum64 (fnv64 (manifest (Resources sl' ! i')))\<rparr>, logs))"
proof (intro conjI impI)
  assume a: "NewResource L P sl i = Inr (r, logs)"
  from NewResource_val [OF a] obtain parsed0 where
    h: "ManifestHash r = Sum64 (fnv64 (manifest (Resources sl ! i)))"
    and v: "val r = (let parsed = SetCreationTimestamp_zero (obj_delete parsed0 ''status'');
                        parsed' = SetAnnotations parsed (pruneMetadata (GetAnnotations parsed))
                    in SetLabels parsed' (pruneMetadata (GetLabels parsed')))"
    by blast
  from h show "ManifestHash r = Sum64 (fnv64 (manifest (Resources sl ! i)))" .
  from v show "map_of (val r) ''status'' = None"
    by (simp add: Let_def)
  from v have "\<forall>w. NestedFieldNoCopy (JObj (val r)) [''metadata'', ''creationTimestamp''] \<noteq> Found w"
    using ct_SetLabels [OF ct_SetAnnotations [OF ct_stripped]]
    by (simp add: Let_def del: NestedFieldNoCopy.simps)
  then show "NestedFieldNoCopy (JObj (val r)) [''metadata'', ''creationTimestamp''] \<noteq> Found JNull"
    by blast
next
  assume a: "i < length (Resources sl) \<and> i' < length (Resources sl') \<and>
      UnmarshalJSON L (manifest (Resources sl ! i)) = Inr o1 \<and>
      UnmarshalJSON L (manifest (Resources sl' ! i')) = Inr o2 \<and>
      drop_status_and_zero_creationTimestamp o1 = drop_status_and_zero_creationTimestamp o2 \<and>
      UnmarshalPatch L (manifest (Resources sl ! i)) = UnmarshalPatch L (manifest (Resources sl' ! i')) \<and>
      NewResource L P sl i = Inr (r, logs)"
  then have "SetCreationTimestamp_zero (obj_delete o1 ''status'')
      = SetCreationTimestamp_zero (obj_delete o2 ''status'')"
    using strip_eq_of_drop_eq by blast
  then have eq: "SetCreationTimestamp_zero (obj_delete o2 ''status'')
      = SetCreationTimestamp_zero (obj_delete o1 ''status'')"
    by simp
  from a have p: "UnmarshalPatch L (manifest (Resources sl' ! i')) = UnmarshalPatch L (manifest (Resources sl ! i))"
    by simp
  from a have n: "NewResource L P sl i = Inr (r, logs)" by simp
  show "NewResource L P sl' i'
           = Inr (r\<lparr>ManifestDeleted := mDeleted (Resources sl' ! i'),
                    ManifestRef := \<lparr>SliceNamespace = sliceNamespace sl', SliceName = sliceName sl',
                                     Index = i'\<rparr>,
                    ManifestHash := Sum64 (fnv64 (manifest (Resources sl' ! i')))\<rparr>, logs)"
    using a n
    by (auto simp: NewResource_def Let_def strip_guard eq p
        split: if_splits sum.splits prod.splits)
qed

lemma drop_cm: "drop_status_and_zero_creationTimestamp cm_obj = cm_obj"
  by (simp add: drop_status_and_zero_creationTimestamp_def cm_obj_def obj_delete_def)

lemma drop_cm_status: "drop_status_and_zero_creationTimestamp cm_status_obj = cm_obj"
  by (simp add: drop_status_and_zero_creationTimestamp_def cm_obj_def cm_status_obj_def obj_delete_def)

lemma drop_cm_null: "drop_status_and_zero_creationTimestamp cm_null_obj = cm_obj"
  by (simp add: drop_status_and_zero_creationTimestamp_def cm_obj_def cm_null_obj_def obj_delete_def
      obj_set_def)

theorem NewResource_strips_witness:
  "NewResource table_json simple_parse (slice_of cm_null_text) 0
     = Inr ((resource_of cm_obj None)\<lparr>ManifestHash := Sum64 (fnv64 cm_null_text)\<rparr>, [])
   \<and> drop_status_and_zero_creationTimestamp cm_null_obj = drop_status_and_zero_creationTimestamp cm_obj
   \<and> map_of (val (resource_of cm_obj None)) ''status'' = None
   \<and> ManifestHash ((resource_of cm_obj None)\<lparr>ManifestHash := [94, 39, 253, 53, 176, 43, 13, 228]\<rparr>)
       = Sum64 (fnv64 cm_text)"
proof -
  let ?r = "(resource_of cm_obj None)\<lparr>ManifestHash := [94, 39, 253, 53, 176, 43, 13, 228]\<rparr>"
  have h: "0 < length (Resources (slice_of cm_text)) \<and> 0 < length (Resources (slice_of cm_null_text)) \<and>
      UnmarshalJSON table_json (manifest (Resources (slice_of cm_text) ! 0)) = Inr cm_obj \<and>
      UnmarshalJSON table_json (manifest (Resources (slice_of cm_null_text) ! 0)) = Inr cm_null_obj \<and>
      drop_status_and_zero_creationTimestamp cm_obj = drop_status_and_zero_creationTimestamp cm_null_obj \<and>
      UnmarshalPatch table_json (manifest (Resources (slice_of cm_text) ! 0))
        = UnmarshalPatch table_json (manifest (Resources (slice_of cm_null_text) ! 0)) \<and>
      NewResource table_json simple_parse (slice_of cm_text) 0 = Inr (?r, [])"
    using NewResource_cm by (simp add: slice_of_def table_json_def drop_cm drop_cm_null)
  have a: "NewResource table_json simple_parse (slice_of cm_null_text) 0
           = Inr (?r\<lparr>ManifestDeleted := mDeleted (Resources (slice_of cm_null_text) ! 0),
                    ManifestRef := \<lparr>SliceNamespace = sliceNamespace (slice_of cm_null_text),
                                     SliceName = sliceName (slice_of cm_null_text), Index = 0\<rparr>,
                    ManifestHash := Sum64 (fnv64 (manifest (Resources (slice_of cm_null_text) ! 0)))\<rparr>, [])"
    by (rule NewResource_strips [THEN conjunct2, THEN mp]) (rule h)
  have b: "ManifestHash ?r = Sum64 (fnv64 (manifest (Resources (slice_of cm_text) ! 0))) \<and>
      map_of (val ?r) ''status'' = None \<and>
      NestedFieldNoCopy (JObj (val ?r)) [''metadata'', ''creationTimestamp''] \<noteq> Found JNull"
    by (rule NewResource_strips [THEN conjunct1, THEN mp]) (rule NewResource_cm)
  from a b show ?thesis
    by (simp add: slice_of_def resource_of_def drop_cm drop_cm_null)
qed

text \<open>
  C6 as stated fails: two manifests that differ only in an empty \<open>status\<close> produce
  resources with the same interned object and different hashes.
\<close>

theorem ManifestHash_counterexample:
  "drop_status_and_zero_creationTimestamp cm_status_obj = drop_status_and_zero_creationTimestamp cm_obj
   \<and> NewResource table_json simple_parse (slice_of cm_text) 0
       = Inr ((resource_of cm_obj None)\<lparr>ManifestHash := [94, 39, 253, 53, 176, 43, 13, 228]\<rparr>, [])
   \<and> NewResource table_json simple_parse (slice_of cm_status_text) 0
       = Inr ((resource_of cm_obj None)\<lparr>ManifestHash := [247, 147, 125, 150, 48, 127, 249, 156]\<rparr>, [])
   \<and> [94, 39, 253, 53, 176, 43, 13, 228] \<noteq> [247, 147, 125, 150, 48, 127, 249, 156 :: 8 word]"
  using NewResource_cm NewResource_cm_status
  by (simp add: drop_cm drop_cm_status)

lemma reconcile_interval_cases:
  "reconcile_interval P anno =
     (case map_of anno reconcileIntervalKey of
        None \<Rightarrow> (None, [])
      | Some str \<Rightarrow>
          (case ParseDuration P str of
             Some d \<Rightarrow> (Some d, [])
           | None \<Rightarrow> (Some 0, if str = [] then [] else [''invalid reconcile interval - ignoring''])))"
  by (simp add: reconcile_interval_def Let_def split: option.splits)

text \<open>
  C5. Whenever \<open>NewResource\<close> accepts a manifest whose annotations carry the
  \<open>reconcile-interval\<close> key with a value that \<open>ParseDuration\<close> rejects, the line
  "invalid reconcile interval - ignoring" is the first line logged unless the value is
  empty, and \<open>ReconcileInterval\<close> is set, to the zero duration. When the annotations do
  not carry the key it is left unset. So the resource is not the one built without the
  annotation.
\<close>

theorem reconcile_interval_set_on_failure:
  "(NewResource L P sl i = Inr (r, logs) \<and>
    UnmarshalJSON L (manifest (Resources sl ! i)) = Inr parsed0 \<and>
    GetAnnotations (SetCreationTimestamp_zero (obj_delete parsed0 ''status'')) = Some anno \<and>
    map_of anno reconcileIntervalKey = Some str \<and> ParseDuration P str = None
     \<longrightarrow> ReconcileInterval r = Some 0 \<and>
         (\<exists>rest. logs = (if str = [] then [] else [''invalid reconcile interval - ignoring'']) @ rest))
   \<and> (NewResource L P sl i = Inr (r, logs) \<and>
      UnmarshalJSON L (manifest (Resources sl ! i)) = Inr parsed0 \<and>
      GetAnnotations (SetCreationTimestamp_zero (obj_delete parsed0 ''status'')) = Some anno \<and>
      map_of anno reconcileIntervalKey = None
     \<longrightarrow> ReconcileInterval r = None)"
proof (intro conjI impI)
  assume a: "NewResource L P sl i = Inr (r, logs) \<and>
    UnmarshalJSON L (manifest (Resources sl ! i)) = Inr parsed0 \<and>
    GetAnnotations (SetCreationTimestamp_zero (obj_delete parsed0 ''status'')) = Some anno \<and>
    map_of anno reconcileIntervalKey = Some str \<and> ParseDuration P str = None"
  then have ri: "reconcile_interval P anno
      = (Some 0, if str = [] then [] else [''invalid reconcile interval - ignoring''])"
    by (simp add: reconcile_interval_cases)
  from a have l: "ReconcileInterval r = fst (reconcile_interval P anno)
      \<and> (\<exists>rest. logs = snd (reconcile_interval P anno) @ rest)"
    by (auto simp: NewResource_def Let_def strip_guard split: if_splits sum.splits prod.splits)
  from l ri show "ReconcileInterval r = Some 0"
    by simp
  from l ri show "\<exists>rest. logs = (if str = [] then [] else [''invalid reconcile interval - ignoring'']) @ rest"
    by simp
next
  assume a: "NewResource L P sl i = Inr (r, logs) \<and>
      UnmarshalJSON L (manifest (Resources sl ! i)) = Inr parsed0 \<and>
      GetAnnotations (SetCreationTimestamp_zero (obj_delete parsed0 ''status'')) = Some anno \<and>
      map_of anno reconcileIntervalKey = None"
  then have ri: "reconcile_interval P anno = (None, [])"
    by (simp add: reconcile_interval_cases)
  from a have "ReconcileInterval r = fst (reconcile_interval P anno)"
    by (auto simp: NewResource_def Let_def strip_guard split: if_splits sum.splits prod.splits)
  with ri show "ReconcileInterval r = None"
    by simp
qed

theorem reconcile_interval_set_on_failure_witness:
  "NewResource table_json simple_parse (slice_of cm_bogus_text) 0
     = Inr ((resource_of cm_obj None)\<lparr>ManifestHash := [231, 243, 98, 90, 187, 74, 9, 152],
              ReconcileInterval := Some 0\<rparr>,
            [''invalid reconcile interval - ignoring''])
   \<and> NewResource table_json simple_parse (slice_of cm_text) 0
     = Inr ((resource_of cm_obj None)\<lparr>ManifestHash := [94, 39, 253, 53, 176, 43, 13, 228]\<rparr>, [])
   \<and> ReconcileInterval (resource_of cm_obj None) = None"
proof -
  let ?r = "(resource_of cm_obj None)\<lparr>ManifestHash := [231, 243, 98, 90, 187, 74, 9, 152],
              ReconcileInterval := Some 0\<rparr>"
  have h: "NewResource table_json simple_parse (slice_of cm_bogus_text) 0
      = Inr (?r, [''invalid reconcile interval - ignoring'']) \<and>
    UnmarshalJSON table_json (manifest (Resources (slice_of cm_bogus_text) ! 0)) = Inr cm_bogus_obj \<and>
    GetAnnotations (SetCreationTimestamp_zero (obj_delete cm_bogus_obj ''status''))
      = Some [(''eno.azure.io/reconcile-interval'', ''bogus'')] \<and>
    map_of [(''eno.azure.io/reconcile-interval'', ''bogus'')] reconcileIntervalKey = Some ''bogus'' \<and>
    ParseDuration simple_parse ''bogus'' = None"
    using NewResource_cm_bogus
    by (simp add: slice_of_def table_json_def simple_parse_def cm_bogus_obj_def accessor_defs)
  have a: "ReconcileInterval ?r = Some 0 \<and>
      (\<exists>rest. [''invalid reconcile interval - ignoring'']
          = (if ''bogus'' = [] then [] else [''invalid reconcile interval - ignoring'']) @ rest)"
    by (rule reconcile_interval_set_on_failure [THEN conjunct1, THEN mp]) (rule h)
  show ?thesis
    using NewResource_cm NewResource_cm_bogus a by (simp add: resource_of_def)
qed

end
